theory Spec2Isabelle
  imports Main
begin

section \<open>JavaScript values and operators used by the security headers middleware\<close>

text \<open>
  The middleware (\<open>security/headers.js\<close>) is the third document of
  \<open>src/design_guidelines.md\<close>; line numbers below are the lines of that file. It is plain
  JavaScript. Most configuration fields are modelled with the types the data model gives
  them (booleans, integers, strings). Three positions are kept dynamically typed, because
  the code calls methods on them that only some values have: the values of the CSP
  directive map (\<open>.join\<close>), the allow-lists of the permissions policy (\<open>.length\<close>,
  \<open>.join\<close>) and the values stored in the response headers (\<open>.includes\<close>). A method call
  on a value without that method is a \<open>TypeError\<close>. Strings are strings of code units
  below 256.
\<close>

datatype error = TypeError

datatype jsval =
    JNull
  | JBool bool
  | JNum int
  | JStr string
  | JArr "string list"

text \<open>Truthiness, as tested by \<open>if (v)\<close> and by \<open>v || d\<close>.\<close>

fun truthy :: "jsval \<Rightarrow> bool" where
  "truthy JNull = False"
| "truthy (JBool b) = b"
| "truthy (JNum n) = (n \<noteq> 0)"
| "truthy (JStr s) = (s \<noteq> [])"
| "truthy (JArr xs) = True"

text \<open>
  \<open>a ?? d\<close>: the default is taken exactly when \<open>a\<close> is \<open>undefined\<close> or \<open>null\<close>, both
  modelled by \<open>None\<close>. \<open>o?.f\<close> is \<open>chain o f\<close>.
\<close>

definition nullish :: "'a option \<Rightarrow> 'a \<Rightarrow> 'a" where
  "nullish a d = (case a of None \<Rightarrow> d | Some v \<Rightarrow> v)"

definition chain :: "'a option \<Rightarrow> ('a \<Rightarrow> 'b option) \<Rightarrow> 'b option" where
  "chain ob f = (case ob of None \<Rightarrow> None | Some ob' \<Rightarrow> f ob')"

text \<open>Sequencing: an exception ends the computation.\<close>

definition bind_err :: "'e + 'a \<Rightarrow> ('a \<Rightarrow> 'e + 'b) \<Rightarrow> 'e + 'b" where
  "bind_err m f = (case m of Inl e \<Rightarrow> Inl e | Inr v \<Rightarrow> f v)"

text \<open>\<open>Array.prototype.join\<close> on an array of strings.\<close>

fun join :: "string \<Rightarrow> string list \<Rightarrow> string" where
  "join sep [] = []"
| "join sep [x] = x"
| "join sep (x # y # ys) = x @ sep @ join sep (y # ys)"

text \<open>\<open>v.join(sep)\<close>: only arrays have the method.\<close>

fun js_join :: "jsval \<Rightarrow> string \<Rightarrow> error + string" where
  "js_join (JArr xs) sep = Inr (join sep xs)"
| "js_join v sep = Inl TypeError"

text \<open>
  \<open>v.length > 0\<close>: reading a property of \<open>null\<close> throws; booleans and numbers have no
  \<open>length\<close>, and \<open>undefined > 0\<close> is false.
\<close>

fun js_length_pos :: "jsval \<Rightarrow> error + bool" where
  "js_length_pos JNull = Inl TypeError"
| "js_length_pos (JArr xs) = Inr (xs \<noteq> [])"
| "js_length_pos (JStr s) = Inr (s \<noteq> [])"
| "js_length_pos (JBool b) = Inr False"
| "js_length_pos (JNum n) = Inr False"

text \<open>\<open>String.prototype.includes\<close>: a contiguous occurrence.\<close>

fun starts_with :: "string \<Rightarrow> string \<Rightarrow> bool" where
  "starts_with s [] = True"
| "starts_with [] (c # cs) = False"
| "starts_with (d # ds) (c # cs) = (d = c \<and> starts_with ds cs)"

fun str_includes :: "string \<Rightarrow> string \<Rightarrow> bool" where
  "str_includes [] sub = (sub = [])"
| "str_includes (c # cs) sub = (starts_with (c # cs) sub \<or> str_includes cs sub)"

text \<open>
  \<open>v.includes(sub)\<close>: substring search on a string, element search on an array, and a
  \<open>TypeError\<close> on a boolean or a number, which have no such method.
\<close>

fun js_includes :: "jsval \<Rightarrow> string \<Rightarrow> error + bool" where
  "js_includes (JStr s) sub = Inr (str_includes s sub)"
| "js_includes (JArr xs) sub = Inr (sub \<in> set xs)"
| "js_includes v sub = Inl TypeError"

text \<open>
  A number as a string (in a template literal, or when a header value is checked).
  Numbers are modelled as integers and printed in decimal. JavaScript prints an integer
  that way when it is a safe integer, of magnitude at most \<open>2^53 - 1\<close>; larger numbers
  are rounded, and from \<open>10^21\<close> on printed with an exponent. A statement about the digits
  written is therefore made for safe integers only.
\<close>

definition digit_char :: "nat \<Rightarrow> char" where
  "digit_char d = ''0123456789'' ! d"

fun string_of_nat :: "nat \<Rightarrow> string" where
  "string_of_nat n =
     (if n < 10 then [digit_char n] else string_of_nat (n div 10) @ [digit_char (n mod 10)])"

definition number_toString :: "int \<Rightarrow> string" where
  "number_toString i =
     (if i < 0 then CHR ''-'' # string_of_nat (nat (- i)) else string_of_nat (nat i))"

definition safe_integer :: "int \<Rightarrow> bool" where
  "safe_integer i = (- 9007199254740991 \<le> i \<and> i \<le> 9007199254740991)"

text \<open>A CSP keyword such as \<open>'self'\<close>, written with its single quotes.\<close>

abbreviation quoted :: "string \<Rightarrow> string" where
  "quoted s \<equiv> CHR 0x27 # s @ [CHR 0x27]"

section \<open>Objects and \<open>Object.entries\<close>\<close>

text \<open>
  An object is given by its property definitions in the order they are written. Defining
  a key a second time replaces the value and keeps the place of the first definition.
  \<open>Object.entries\<close> lists the keys that are array indices first (canonical decimal
  numerals below \<open>2^32 - 1\<close>), in ascending numeric order, and then the other keys in
  the order of their definition.
\<close>

definition is_digit :: "char \<Rightarrow> bool" where
  "is_digit c = (48 \<le> (of_char c :: nat) \<and> (of_char c :: nat) \<le> 57)"

definition parse_nat :: "string \<Rightarrow> nat" where
  "parse_nat s = foldl (\<lambda>a c. 10 * a + (of_char c - 48)) 0 s"

definition canonical_digits :: "string \<Rightarrow> bool" where
  "canonical_digits ds = (ds \<noteq> [] \<and> list_all is_digit ds \<and> (ds = ''0'' \<or> hd ds \<noteq> CHR ''0''))"

definition is_array_index :: "string \<Rightarrow> bool" where
  "is_array_index key = (canonical_digits key \<and> parse_nat key < 4294967295)"

fun define_property :: "(string \<times> 'v) list \<Rightarrow> string \<times> 'v \<Rightarrow> (string \<times> 'v) list" where
  "define_property [] kv = [kv]"
| "define_property (p # ps) kv =
     (if fst p = fst kv then kv # ps else p # define_property ps kv)"

definition own_properties :: "(string \<times> 'v) list \<Rightarrow> (string \<times> 'v) list" where
  "own_properties props = foldl define_property [] props"

definition object_entries :: "(string \<times> 'v) list \<Rightarrow> (string \<times> 'v) list" where
  "object_entries props =
     (let own = own_properties props in
      sort_key (\<lambda>p. parse_nat (fst p)) (filter (\<lambda>p. is_array_index (fst p)) own)
        @ filter (\<lambda>p. \<not> is_array_index (fst p)) own)"

section \<open>Requests and responses\<close>

text \<open>
  The response is the header store behind \<open>res.setHeader\<close> and \<open>res.get\<close>. Node keeps one
  value per header under the lower-cased name, so a write replaces the earlier value and
  a read finds the header in any spelling. The middleware runs before the handler that
  sends the response: the headers of the response are not yet sent. The request carries
  the inbound headers.
\<close>

definition lower_char :: "char \<Rightarrow> char" where
  "lower_char c =
     (let n = (of_char c :: nat) in if 65 \<le> n \<and> n \<le> 90 then char_of (n + 32) else c)"

definition lower :: "string \<Rightarrow> string" where
  "lower s = map lower_char s"

record response =
  headers :: "string \<Rightarrow> jsval option"

record request =
  req_headers :: "string \<Rightarrow> string option"

text \<open>
  An exception carries the response as it is when the exception is thrown: the headers
  written before stay written.
\<close>

type_synonym thrown = "error \<times> response"

definition throw_at :: "response \<Rightarrow> error + 'a \<Rightarrow> thrown + 'a" where
  "throw_at res m = (case m of Inl e \<Rightarrow> Inl (e, res) | Inr v \<Rightarrow> Inr v)"

text \<open>
  Node's \<open>res.setHeader(name, value)\<close> checks the value, as a string, against
  \<open>/[^\t\x20-\x7e\x80-\xff]/\<close> and throws a \<open>TypeError\<close> (\<open>ERR_INVALID_CHAR\<close>) when a
  character matches: a control character other than the tab, or the delete character.
  The names the middleware passes are literals, all of them legal header names.
\<close>

definition valid_header_char :: "char \<Rightarrow> bool" where
  "valid_header_char c =
     (let n = (of_char c :: nat) in n = 9 \<or> (32 \<le> n \<and> n \<le> 126) \<or> 128 \<le> n)"

definition valid_header_value :: "string \<Rightarrow> bool" where
  "valid_header_value s = list_all valid_header_char s"

fun header_value_string :: "jsval \<Rightarrow> string" where
  "header_value_string (JStr s) = s"
| "header_value_string (JNum n) = number_toString n"
| "header_value_string (JArr xs) = join '','' xs"
| "header_value_string (JBool b) = (if b then ''true'' else ''false'')"
| "header_value_string JNull = ''null''"

definition put_header :: "string \<Rightarrow> jsval \<Rightarrow> response \<Rightarrow> response" where
  "put_header name v res = res\<lparr>headers := (headers res)(lower name \<mapsto> v)\<rparr>"

definition setHeader :: "string \<Rightarrow> jsval \<Rightarrow> response \<Rightarrow> thrown + response" where
  "setHeader name v res =
     (if valid_header_value (header_value_string v) then Inr (put_header name v res)
      else Inl (TypeError, res))"

definition getHeader :: "response \<Rightarrow> string \<Rightarrow> jsval option" where
  "getHeader res name = headers res (lower name)"

section \<open>\<open>securityHeaders\<close>: resolving the options\<close>

text \<open>
  The caller's options: every field may be left out. The directive map is a JavaScript
  object (a key that is not there reads as \<open>undefined\<close>, here \<open>None\<close>); the permissions
  policy is an object, given by its property definitions in the order they are written,
  or a falsy value such as \<open>false\<close>.
\<close>

type_synonym directive_map = "string \<Rightarrow> jsval option"

datatype permissions = PFalsy | PObject "(string \<times> jsval) list"

record hsts_options =
  enabled_opt :: "bool option"
  maxAge_opt :: "int option"
  includeSubDomains_opt :: "bool option"
  preload_opt :: "bool option"

record csp_options =
  csp_enabled_opt :: "bool option"
  directives_opt :: "directive_map option"

record crossOrigin_options =
  embedderPolicy_opt :: "string option"
  openerPolicy_opt :: "string option"
  resourcePolicy_opt :: "string option"

record options =
  hsts_opt :: "hsts_options option"
  csp_opt :: "csp_options option"
  xFrameOptions_opt :: "string option"
  xContentTypeOptions_opt :: "string option"
  xXssProtection_opt :: "string option"
  referrerPolicy_opt :: "string option"
  permissionsPolicy_opt :: "permissions option"
  crossOrigin_opt :: "crossOrigin_options option"
  cacheControl_opt :: "string option"

text \<open>The resolved configuration (\<open>const config\<close>).\<close>

record hsts_config =
  hsts_enabled :: bool
  maxAge :: int
  includeSubDomains :: bool
  preload :: bool

record csp_config =
  csp_enabled :: bool
  directives :: directive_map

record crossOrigin_config =
  embedderPolicy :: string
  openerPolicy :: string
  resourcePolicy :: string

record config =
  hsts :: hsts_config
  csp :: csp_config
  xFrameOptions :: string
  xContentTypeOptions :: string
  xXssProtection :: string
  referrerPolicy :: string
  permissionsPolicy :: permissions
  crossOrigin :: crossOrigin_config
  cacheControl :: string

definition default_directives :: directive_map where
  "default_directives = map_of
     [(''defaultSrc'', JArr [quoted ''self'']),
      (''scriptSrc'', JArr [quoted ''self'', quoted ''unsafe-inline'']),
      (''styleSrc'', JArr [quoted ''self'', quoted ''unsafe-inline'', ''https://fonts.googleapis.com'']),
      (''imgSrc'', JArr [quoted ''self'', ''data:'', ''https:'']),
      (''fontSrc'', JArr [quoted ''self'', ''https://fonts.gstatic.com'']),
      (''connectSrc'', JArr [quoted ''self'']),
      (''frameSrc'', JArr [quoted ''none'']),
      (''objectSrc'', JArr [quoted ''none'']),
      (''baseUri'', JArr [quoted ''self'']),
      (''formAction'', JArr [quoted ''self'']),
      (''frameAncestors'', JArr [quoted ''none'']),
      (''upgradeInsecureRequests'', JBool True)]"

definition default_permissionsPolicy :: permissions where
  "default_permissionsPolicy = PObject
     [(''accelerometer'', JArr []),
      (''camera'', JArr []),
      (''geolocation'', JArr []),
      (''gyroscope'', JArr []),
      (''magnetometer'', JArr []),
      (''microphone'', JArr []),
      (''payment'', JArr []),
      (''usb'', JArr [])]"

text \<open>The object literal of \<open>securityHeaders\<close>, lines 182 to 249.\<close>

definition securityHeaders_config :: "options \<Rightarrow> config" where
  "securityHeaders_config opts =
     \<lparr> hsts =
         \<lparr> hsts_enabled = nullish (chain (hsts_opt opts) enabled_opt) True,
           maxAge = nullish (chain (hsts_opt opts) maxAge_opt) 31536000,
           includeSubDomains = nullish (chain (hsts_opt opts) includeSubDomains_opt) True,
           preload = nullish (chain (hsts_opt opts) preload_opt) False \<rparr>,
       csp =
         \<lparr> csp_enabled = nullish (chain (csp_opt opts) csp_enabled_opt) True,
           directives = nullish (chain (csp_opt opts) directives_opt) default_directives \<rparr>,
       xFrameOptions = nullish (xFrameOptions_opt opts) ''DENY'',
       xContentTypeOptions = nullish (xContentTypeOptions_opt opts) ''nosniff'',
       xXssProtection = nullish (xXssProtection_opt opts) ''1; mode=block'',
       referrerPolicy = nullish (referrerPolicy_opt opts) ''strict-origin-when-cross-origin'',
       permissionsPolicy = nullish (permissionsPolicy_opt opts) default_permissionsPolicy,
       crossOrigin =
         \<lparr> embedderPolicy = nullish (chain (crossOrigin_opt opts) embedderPolicy_opt) ''require-corp'',
           openerPolicy = nullish (chain (crossOrigin_opt opts) openerPolicy_opt) ''same-origin'',
           resourcePolicy = nullish (chain (crossOrigin_opt opts) resourcePolicy_opt) ''same-origin'' \<rparr>,
       cacheControl =
         nullish (cacheControl_opt opts) ''no-store, no-cache, must-revalidate, proxy-revalidate'' \<rparr>"

text \<open>\<open>securityHeaders()\<close>: the options object \<open>{}\<close>.\<close>

definition no_options :: options where
  "no_options =
     \<lparr> hsts_opt = None, csp_opt = None, xFrameOptions_opt = None,
       xContentTypeOptions_opt = None, xXssProtection_opt = None, referrerPolicy_opt = None,
       permissionsPolicy_opt = None, crossOrigin_opt = None, cacheControl_opt = None \<rparr>"

section \<open>\<open>securityHeadersMiddleware\<close>: writing the headers\<close>

text \<open>Lines 252 to 262: HSTS.\<close>

definition hsts_step :: "config \<Rightarrow> response \<Rightarrow> thrown + response" where
  "hsts_step cfg res =
     (if hsts_enabled (hsts cfg) then
        (let hstsValue = ''max-age='' @ number_toString (maxAge (hsts cfg));
             hstsValue = (if includeSubDomains (hsts cfg)
                          then hstsValue @ ''; includeSubDomains'' else hstsValue);
             hstsValue = (if preload (hsts cfg) then hstsValue @ ''; preload'' else hstsValue)
         in setHeader ''Strict-Transport-Security'' (JStr hstsValue) res)
      else Inr res)"

text \<open>
  Lines 269 to 301: \<open>if (directives.k) cspDirectives.push(`name ${directives.k.join(' ')}`)\<close>,
  with the list of directives pushed so far.
\<close>

definition push_directive ::
  "directive_map \<Rightarrow> string \<Rightarrow> string \<Rightarrow> string list \<Rightarrow> error + string list" where
  "push_directive d key name cspDirectives =
     (case d key of
        None \<Rightarrow> Inr cspDirectives
      | Some v \<Rightarrow>
          if truthy v
          then bind_err (js_join v '' '') (\<lambda>s. Inr (cspDirectives @ [name @ '' '' @ s]))
          else Inr cspDirectives)"

text \<open>Lines 302 to 304: the flag only has to be truthy.\<close>

definition push_upgrade :: "directive_map \<Rightarrow> string list \<Rightarrow> string list" where
  "push_upgrade d cspDirectives =
     (case d ''upgradeInsecureRequests'' of
        None \<Rightarrow> cspDirectives
      | Some v \<Rightarrow>
          if truthy v then cspDirectives @ [''upgrade-insecure-requests''] else cspDirectives)"

text \<open>Lines 266 to 306: the value passed to \<open>res.setHeader\<close>.\<close>

definition csp_value :: "directive_map \<Rightarrow> error + string" where
  "csp_value d =
     bind_err (push_directive d ''defaultSrc'' ''default-src'' []) (\<lambda>l.
     bind_err (push_directive d ''scriptSrc'' ''script-src'' l) (\<lambda>l.
     bind_err (push_directive d ''styleSrc'' ''style-src'' l) (\<lambda>l.
     bind_err (push_directive d ''imgSrc'' ''img-src'' l) (\<lambda>l.
     bind_err (push_directive d ''fontSrc'' ''font-src'' l) (\<lambda>l.
     bind_err (push_directive d ''connectSrc'' ''connect-src'' l) (\<lambda>l.
     bind_err (push_directive d ''frameSrc'' ''frame-src'' l) (\<lambda>l.
     bind_err (push_directive d ''objectSrc'' ''object-src'' l) (\<lambda>l.
     bind_err (push_directive d ''baseUri'' ''base-uri'' l) (\<lambda>l.
     bind_err (push_directive d ''formAction'' ''form-action'' l) (\<lambda>l.
     bind_err (push_directive d ''frameAncestors'' ''frame-ancestors'' l) (\<lambda>l.
     Inr (join ''; '' (push_upgrade d l)))))))))))))"

text \<open>Lines 264 to 307.\<close>

definition csp_step :: "config \<Rightarrow> response \<Rightarrow> thrown + response" where
  "csp_step cfg res =
     (if csp_enabled (csp cfg)
      then bind_err (throw_at res (csp_value (directives (csp cfg))))
             (\<lambda>v. setHeader ''Content-Security-Policy'' (JStr v) res)
      else Inr res)"

text \<open>
  \<open>if (value) res.setHeader(name, value)\<close> for a string: the empty string is falsy. Used
  for the four headers of lines 309 to 327 and the three of lines 340 to 349.
\<close>

definition set_if_truthy :: "string \<Rightarrow> string \<Rightarrow> response \<Rightarrow> thrown + response" where
  "set_if_truthy name v res = (if v \<noteq> [] then setHeader name (JStr v) res else Inr res)"

text \<open>Lines 332 to 335: one entry of the permissions policy.\<close>

definition permission_entry :: "string \<times> jsval \<Rightarrow> error + string" where
  "permission_entry e =
     (case e of (feature, allowList) \<Rightarrow>
        bind_err (js_length_pos allowList) (\<lambda>pos.
        bind_err (if pos
                  then bind_err (js_join allowList '' '') (\<lambda>s. Inr (''('' @ s @ '')''))
                  else Inr ''()'')
          (\<lambda>v. Inr (feature @ ''='' @ v))))"

text \<open>\<open>.map\<close> with a callback that may throw: the first exception ends the loop.\<close>

fun map_err :: "('a \<Rightarrow> error + 'b) \<Rightarrow> 'a list \<Rightarrow> error + 'b list" where
  "map_err f [] = Inr []"
| "map_err f (x # xs) = bind_err (f x) (\<lambda>y. bind_err (map_err f xs) (\<lambda>ys. Inr (y # ys)))"

text \<open>Lines 329 to 338. An object is truthy, with or without entries.\<close>

definition permissions_step :: "config \<Rightarrow> response \<Rightarrow> thrown + response" where
  "permissions_step cfg res =
     (case permissionsPolicy cfg of
        PFalsy \<Rightarrow> Inr res
      | PObject props \<Rightarrow>
          bind_err (throw_at res (map_err permission_entry (object_entries props)))
            (\<lambda>policies. setHeader ''Permissions-Policy'' (JStr (join '', '' policies)) res))"

text \<open>Line 353: \<open>res.get('Content-Type') || ''\<close>.\<close>

definition contentType_of :: "response \<Rightarrow> jsval" where
  "contentType_of res =
     (case getHeader res ''Content-Type'' of
        None \<Rightarrow> JStr []
      | Some v \<Rightarrow> if truthy v then v else JStr [])"

text \<open>Line 354: the four tests, left to right; \<open>&&\<close> stops at the first that fails.\<close>

definition is_dynamic_content :: "jsval \<Rightarrow> error + bool" where
  "is_dynamic_content contentType =
     bind_err (js_includes contentType ''image'') (\<lambda>a.
       if a then Inr False else
     bind_err (js_includes contentType ''font'') (\<lambda>b.
       if b then Inr False else
     bind_err (js_includes contentType ''css'') (\<lambda>c.
       if c then Inr False else
     bind_err (js_includes contentType ''javascript'') (\<lambda>d. Inr (\<not> d)))))"

text \<open>Lines 351 to 358.\<close>

definition cache_step :: "config \<Rightarrow> response \<Rightarrow> thrown + response" where
  "cache_step cfg res =
     bind_err (throw_at res (is_dynamic_content (contentType_of res))) (\<lambda>dynamic.
       if dynamic
       then bind_err (setHeader ''Cache-Control'' (JStr (cacheControl cfg)) res) (\<lambda>res.
            bind_err (setHeader ''Pragma'' (JStr ''no-cache'') res) (\<lambda>res.
            setHeader ''Expires'' (JStr ''0'') res))
       else Inr res)"

text \<open>
  Lines 251 to 361. \<open>next\<close> is the rest of the handler chain: it receives the response
  as the middleware leaves it, and the result of the middleware is then the result of
  \<open>next\<close>. An exception leaves the function before \<open>next()\<close>.
\<close>

definition securityHeadersMiddleware ::
  "config \<Rightarrow> request \<Rightarrow> response \<Rightarrow> (response \<Rightarrow> thrown + 'r) \<Rightarrow> thrown + 'r" where
  "securityHeadersMiddleware cfg req res nxt =
     bind_err (hsts_step cfg res) (\<lambda>res.
     bind_err (csp_step cfg res) (\<lambda>res.
     bind_err (set_if_truthy ''X-Frame-Options'' (xFrameOptions cfg) res) (\<lambda>res.
     bind_err (set_if_truthy ''X-Content-Type-Options'' (xContentTypeOptions cfg) res) (\<lambda>res.
     bind_err (set_if_truthy ''X-XSS-Protection'' (xXssProtection cfg) res) (\<lambda>res.
     bind_err (set_if_truthy ''Referrer-Policy'' (referrerPolicy cfg) res) (\<lambda>res.
     bind_err (permissions_step cfg res) (\<lambda>res.
     bind_err (set_if_truthy ''Cross-Origin-Embedder-Policy''
                 (embedderPolicy (crossOrigin cfg)) res) (\<lambda>res.
     bind_err (set_if_truthy ''Cross-Origin-Opener-Policy''
                 (openerPolicy (crossOrigin cfg)) res) (\<lambda>res.
     bind_err (set_if_truthy ''Cross-Origin-Resource-Policy''
                 (resourcePolicy (crossOrigin cfg)) res) (\<lambda>res.
     bind_err (cache_step cfg res) (\<lambda>res.
     nxt res)))))))))))"

text \<open>\<open>securityHeaders(options)\<close> returns the middleware closed over the resolved configuration.\<close>

definition securityHeaders ::
  "options \<Rightarrow> request \<Rightarrow> response \<Rightarrow> (response \<Rightarrow> thrown + 'r) \<Rightarrow> thrown + 'r" where
  "securityHeaders opts = securityHeadersMiddleware (securityHeaders_config opts)"

text \<open>The last handler of a chain: it hands the response back.\<close>

definition last_handler :: "response \<Rightarrow> thrown + response" where
  "last_handler res = Inr res"

section \<open>\<open>rateLimitHeaders\<close>\<close>

record rateLimit_options =
  limit_opt :: "int option"
  window_opt :: "int option"
  remaining_opt :: "int option"

text \<open>\<open>remaining\<close> is \<open>null\<close> (here \<open>None\<close>) when the caller gave none.\<close>

record rateLimit_config =
  limit :: int
  window :: int
  remaining :: "int option"

definition rateLimitHeaders_config :: "rateLimit_options \<Rightarrow> rateLimit_config" where
  "rateLimitHeaders_config opts =
     \<lparr> limit = nullish (limit_opt opts) 100,
       window = nullish (window_opt opts) 60,
       remaining = remaining_opt opts \<rparr>"

text \<open>Lines 381 to 395. The values are passed to \<open>res.setHeader\<close> as numbers.\<close>

definition rateLimitHeadersMiddleware ::
  "rateLimit_config \<Rightarrow> request \<Rightarrow> response \<Rightarrow> (response \<Rightarrow> thrown + 'r) \<Rightarrow> thrown + 'r" where
  "rateLimitHeadersMiddleware cfg req res nxt =
     bind_err (setHeader ''X-RateLimit-Limit'' (JNum (limit cfg)) res) (\<lambda>res.
     bind_err (setHeader ''X-RateLimit-Window'' (JNum (window cfg)) res) (\<lambda>res.
     bind_err (case remaining cfg of
                 None \<Rightarrow> Inr res
               | Some r \<Rightarrow> setHeader ''X-RateLimit-Remaining'' (JNum r) res) (\<lambda>res.
     bind_err (setHeader ''CF-Cache-Status'' (JStr ''DYNAMIC'') res) (\<lambda>res.
     nxt res))))"

definition rateLimitHeaders ::
  "rateLimit_options \<Rightarrow> request \<Rightarrow> response \<Rightarrow> (response \<Rightarrow> thrown + 'r) \<Rightarrow> thrown + 'r" where
  "rateLimitHeaders opts = rateLimitHeadersMiddleware (rateLimitHeaders_config opts)"

section \<open>The Hono adapter\<close>

text \<open>\<open>buildConfig\<close>, lines 501 to 514: the part of the configuration the adapters use.\<close>

record adapter_config =
  a_hsts :: hsts_config
  a_xFrameOptions :: string
  a_xContentTypeOptions :: string
  a_xXssProtection :: string
  a_referrerPolicy :: string

definition buildConfig :: "options \<Rightarrow> adapter_config" where
  "buildConfig opts =
     \<lparr> a_hsts =
         \<lparr> hsts_enabled = nullish (chain (hsts_opt opts) enabled_opt) True,
           maxAge = nullish (chain (hsts_opt opts) maxAge_opt) 31536000,
           includeSubDomains = nullish (chain (hsts_opt opts) includeSubDomains_opt) True,
           preload = nullish (chain (hsts_opt opts) preload_opt) False \<rparr>,
       a_xFrameOptions = nullish (xFrameOptions_opt opts) ''DENY'',
       a_xContentTypeOptions = nullish (xContentTypeOptions_opt opts) ''nosniff'',
       a_xXssProtection = nullish (xXssProtection_opt opts) ''1; mode=block'',
       a_referrerPolicy = nullish (referrerPolicy_opt opts) ''strict-origin-when-cross-origin'' \<rparr>"

text \<open>
  Hono's \<open>c.header(name, value)\<close> sets the header on the \<open>Headers\<close> object of the
  response. \<open>Headers.set\<close> of the Fetch standard first removes leading and trailing HTTP
  whitespace (tab, line feed, carriage return, space) from the value, and then throws a
  \<open>TypeError\<close> when the value contains a NUL, a line feed or a carriage return. The
  context \<open>c\<close> is modelled by the response it carries.
\<close>

definition http_whitespace :: "char \<Rightarrow> bool" where
  "http_whitespace c = ((of_char c :: nat) \<in> {9, 10, 13, 32})"

definition strip_whitespace :: "string \<Rightarrow> string" where
  "strip_whitespace s = rev (dropWhile http_whitespace (rev (dropWhile http_whitespace s)))"

definition forbidden_in_value :: "char \<Rightarrow> bool" where
  "forbidden_in_value c = ((of_char c :: nat) \<in> {0, 10, 13})"

definition hono_header :: "string \<Rightarrow> string \<Rightarrow> response \<Rightarrow> thrown + response" where
  "hono_header name value c =
     (let v = strip_whitespace value in
      if list_ex forbidden_in_value v then Inl (TypeError, c)
      else Inr (put_header name (JStr v) c))"

text \<open>
  Lines 482 to 497. The adapter runs the rest of the chain first and writes its headers
  on the way back.
\<close>

definition securityHeadersHono_handler ::
  "adapter_config \<Rightarrow> response \<Rightarrow> (response \<Rightarrow> thrown + response) \<Rightarrow> thrown + response" where
  "securityHeadersHono_handler cfg c nxt =
     bind_err (nxt c) (\<lambda>c.
     bind_err (if hsts_enabled (a_hsts cfg) then
                 (let hstsValue = ''max-age='' @ number_toString (maxAge (a_hsts cfg));
                      hstsValue = (if includeSubDomains (a_hsts cfg)
                                   then hstsValue @ ''; includeSubDomains'' else hstsValue);
                      hstsValue = (if preload (a_hsts cfg)
                                   then hstsValue @ ''; preload'' else hstsValue)
                  in hono_header ''Strict-Transport-Security'' hstsValue c)
               else Inr c) (\<lambda>c.
     bind_err (hono_header ''X-Frame-Options'' (a_xFrameOptions cfg) c) (\<lambda>c.
     bind_err (hono_header ''X-Content-Type-Options'' (a_xContentTypeOptions cfg) c) (\<lambda>c.
     hono_header ''Referrer-Policy'' (a_referrerPolicy cfg) c))))"

definition securityHeadersHono ::
  "options \<Rightarrow> response \<Rightarrow> (response \<Rightarrow> thrown + response) \<Rightarrow> thrown + response" where
  "securityHeadersHono opts = securityHeadersHono_handler (buildConfig opts)"

section \<open>What the specification says is written\<close>

text \<open>
  The definitions of this section follow the words of the specification; the theorems
  below compare them with the code above.
\<close>

text \<open>The defaults of the data model.\<close>

definition default_config :: config where
  "default_config =
     \<lparr> hsts = \<lparr> hsts_enabled = True, maxAge = 31536000, includeSubDomains = True,
                preload = False \<rparr>,
       csp = \<lparr> csp_enabled = True, directives = default_directives \<rparr>,
       xFrameOptions = ''DENY'',
       xContentTypeOptions = ''nosniff'',
       xXssProtection = ''1; mode=block'',
       referrerPolicy = ''strict-origin-when-cross-origin'',
       permissionsPolicy = default_permissionsPolicy,
       crossOrigin = \<lparr> embedderPolicy = ''require-corp'', openerPolicy = ''same-origin'',
                       resourcePolicy = ''same-origin'' \<rparr>,
       cacheControl = ''no-store, no-cache, must-revalidate, proxy-revalidate'' \<rparr>"

text \<open>A list of strings with a separator before every string but the first.\<close>

fun separated :: "string \<Rightarrow> string list \<Rightarrow> string" where
  "separated sep [] = []"
| "separated sep (x # xs) = x @ concat (map (\<lambda>y. sep @ y) xs)"

text \<open>
  The decimal numeral of an integer: a minus sign for a negative number, then digits
  only, no leading zero, and the digits read back as the magnitude.
\<close>

definition is_decimal_of :: "string \<Rightarrow> int \<Rightarrow> bool" where
  "is_decimal_of s i =
     (if i < 0
      then s \<noteq> [] \<and> hd s = CHR ''-'' \<and> canonical_digits (tl s) \<and> int (parse_nat (tl s)) = - i
      else canonical_digits s \<and> int (parse_nat s) = i)"

text \<open>\<open>max-age=<n>[; includeSubDomains][; preload]\<close>.\<close>

definition hsts_rendering :: "hsts_config \<Rightarrow> string" where
  "hsts_rendering h =
     ''max-age='' @ number_toString (maxAge h)
       @ (if includeSubDomains h then ''; includeSubDomains'' else [])
       @ (if preload h then ''; preload'' else [])"

text \<open>The list directives in their fixed order: the key of the map and the name written.\<close>

definition directive_table :: "(string \<times> string) list" where
  "directive_table =
     [(''defaultSrc'', ''default-src''),
      (''scriptSrc'', ''script-src''),
      (''styleSrc'', ''style-src''),
      (''imgSrc'', ''img-src''),
      (''fontSrc'', ''font-src''),
      (''connectSrc'', ''connect-src''),
      (''frameSrc'', ''frame-src''),
      (''objectSrc'', ''object-src''),
      (''baseUri'', ''base-uri''),
      (''formAction'', ''form-action''),
      (''frameAncestors'', ''frame-ancestors'')]"

text \<open>A directive that is present is \<open>name\<close>, a space, the tokens; one that is absent is nothing.\<close>

definition render_directive :: "directive_map \<Rightarrow> string \<times> string \<Rightarrow> string list" where
  "render_directive d kn =
     (case d (fst kn) of
        Some (JArr tokens) \<Rightarrow> [snd kn @ '' '' @ separated '' '' tokens]
      | _ \<Rightarrow> [])"

definition csp_rendering :: "directive_map \<Rightarrow> string" where
  "csp_rendering d =
     separated ''; ''
       (concat (map (render_directive d) directive_table)
         @ (if d ''upgradeInsecureRequests'' = Some (JBool True)
            then [''upgrade-insecure-requests''] else []))"

text \<open>\<open><feature>=(<space-joined origins>)\<close>, joined by a comma and a space.\<close>

fun origins_of :: "jsval \<Rightarrow> string list" where
  "origins_of (JArr xs) = xs"
| "origins_of v = []"

definition render_permission :: "string \<times> jsval \<Rightarrow> string" where
  "render_permission e = fst e @ ''=('' @ separated '' '' (origins_of (snd e)) @ '')''"

definition permissions_rendering :: "(string \<times> jsval) list \<Rightarrow> string" where
  "permissions_rendering entries = separated '', '' (map render_permission entries)"

text \<open>The content type as a string, the empty string when there is none.\<close>

definition contentType_string :: "response \<Rightarrow> string" where
  "contentType_string res =
     (case getHeader res ''Content-Type'' of Some (JStr s) \<Rightarrow> s | _ \<Rightarrow> [])"

definition is_static_asset :: "string \<Rightarrow> bool" where
  "is_static_asset ct =
     (str_includes ct ''image'' \<or> str_includes ct ''font'' \<or> str_includes ct ''css''
       \<or> str_includes ct ''javascript'')"

text \<open>
  Normal input: the directive values are lists of strings and the upgrade flag a boolean,
  the origins of every feature are a list of strings, and the content type already on the
  response, if any, is a string.
\<close>

fun is_array :: "jsval \<Rightarrow> bool" where
  "is_array (JArr xs) = True"
| "is_array v = False"

fun is_boolean :: "jsval \<Rightarrow> bool" where
  "is_boolean (JBool b) = True"
| "is_boolean v = False"

fun is_string :: "jsval \<Rightarrow> bool" where
  "is_string (JStr s) = True"
| "is_string v = False"

definition directive_wellformed :: "directive_map \<Rightarrow> string \<Rightarrow> bool" where
  "directive_wellformed d key = (case d key of None \<Rightarrow> True | Some v \<Rightarrow> is_array v)"

definition directives_wellformed :: "directive_map \<Rightarrow> bool" where
  "directives_wellformed d =
     (list_all (\<lambda>kn. directive_wellformed d (fst kn)) directive_table
      \<and> (case d ''upgradeInsecureRequests'' of None \<Rightarrow> True | Some v \<Rightarrow> is_boolean v))"

definition permissions_wellformed :: "permissions \<Rightarrow> bool" where
  "permissions_wellformed p =
     (case p of PFalsy \<Rightarrow> True | PObject props \<Rightarrow> list_all (\<lambda>e. is_array (snd e)) props)"

definition contentType_wellformed :: "response \<Rightarrow> bool" where
  "contentType_wellformed res =
     (case getHeader res ''Content-Type'' of None \<Rightarrow> True | Some v \<Rightarrow> is_string v)"

definition normal_input :: "config \<Rightarrow> response \<Rightarrow> bool" where
  "normal_input cfg res =
     (directives_wellformed (directives (csp cfg))
      \<and> permissions_wellformed (permissionsPolicy cfg)
      \<and> contentType_wellformed res)"

text \<open>
  Legal header values: every string of the configuration that can end up in a header
  value consists of characters \<open>res.setHeader\<close> accepts.
\<close>

definition tokens_valid :: "directive_map \<Rightarrow> string \<Rightarrow> bool" where
  "tokens_valid d key =
     (case d key of Some (JArr tokens) \<Rightarrow> list_all valid_header_value tokens | _ \<Rightarrow> True)"

definition directives_header_safe :: "directive_map \<Rightarrow> bool" where
  "directives_header_safe d = list_all (\<lambda>kn. tokens_valid d (fst kn)) directive_table"

definition permissions_header_safe :: "permissions \<Rightarrow> bool" where
  "permissions_header_safe p =
     (case p of
        PFalsy \<Rightarrow> True
      | PObject props \<Rightarrow>
          list_all (\<lambda>e. valid_header_value (fst e)
                      \<and> list_all valid_header_value (origins_of (snd e))) props)"

definition header_safe :: "config \<Rightarrow> bool" where
  "header_safe cfg =
     (directives_header_safe (directives (csp cfg))
      \<and> valid_header_value (xFrameOptions cfg)
      \<and> valid_header_value (xContentTypeOptions cfg)
      \<and> valid_header_value (xXssProtection cfg)
      \<and> valid_header_value (referrerPolicy cfg)
      \<and> permissions_header_safe (permissionsPolicy cfg)
      \<and> valid_header_value (embedderPolicy (crossOrigin cfg))
      \<and> valid_header_value (openerPolicy (crossOrigin cfg))
      \<and> valid_header_value (resourcePolicy (crossOrigin cfg))
      \<and> valid_header_value (cacheControl cfg))"

text \<open>
  Steps 2 to 7 of the header policy engine as a list of writes, in the order they are
  made; a later write of a name replaces an earlier one.
\<close>

definition header_if :: "bool \<Rightarrow> string \<Rightarrow> string \<Rightarrow> (string \<times> jsval) list" where
  "header_if c name v = (if c then [(name, JStr v)] else [])"

definition planned_writes :: "config \<Rightarrow> response \<Rightarrow> (string \<times> jsval) list" where
  "planned_writes cfg res =
     header_if (hsts_enabled (hsts cfg)) ''Strict-Transport-Security'' (hsts_rendering (hsts cfg))
     @ header_if (csp_enabled (csp cfg)) ''Content-Security-Policy''
         (csp_rendering (directives (csp cfg)))
     @ header_if (xFrameOptions cfg \<noteq> []) ''X-Frame-Options'' (xFrameOptions cfg)
     @ header_if (xContentTypeOptions cfg \<noteq> []) ''X-Content-Type-Options''
         (xContentTypeOptions cfg)
     @ header_if (xXssProtection cfg \<noteq> []) ''X-XSS-Protection'' (xXssProtection cfg)
     @ header_if (referrerPolicy cfg \<noteq> []) ''Referrer-Policy'' (referrerPolicy cfg)
     @ (case permissionsPolicy cfg of
          PFalsy \<Rightarrow> []
        | PObject props \<Rightarrow>
            [(''Permissions-Policy'', JStr (permissions_rendering (object_entries props)))])
     @ header_if (embedderPolicy (crossOrigin cfg) \<noteq> []) ''Cross-Origin-Embedder-Policy''
         (embedderPolicy (crossOrigin cfg))
     @ header_if (openerPolicy (crossOrigin cfg) \<noteq> []) ''Cross-Origin-Opener-Policy''
         (openerPolicy (crossOrigin cfg))
     @ header_if (resourcePolicy (crossOrigin cfg) \<noteq> []) ''Cross-Origin-Resource-Policy''
         (resourcePolicy (crossOrigin cfg))
     @ (if is_static_asset (contentType_string res) then []
        else [(''Cache-Control'', JStr (cacheControl cfg)),
              (''Pragma'', JStr ''no-cache''),
              (''Expires'', JStr ''0'')])"

text \<open>All the writes made, when every value is legal.\<close>

definition apply_writes :: "(string \<times> jsval) list \<Rightarrow> response \<Rightarrow> response" where
  "apply_writes ws res = foldl (\<lambda>r w. put_header (fst w) (snd w) r) res ws"

text \<open>The writes made one after the other through \<open>res.setHeader\<close>, up to the first illegal value.\<close>

fun try_writes :: "(string \<times> jsval) list \<Rightarrow> response \<Rightarrow> thrown + response" where
  "try_writes [] res = Inr res"
| "try_writes (w # ws) res = bind_err (setHeader (fst w) (snd w) res) (try_writes ws)"

text \<open>
  The response after a run: the one returned, or the one the exception carries. A run
  threw when it ended with an exception.
\<close>

definition state_of :: "thrown + response \<Rightarrow> response" where
  "state_of r = (case r of Inl t \<Rightarrow> snd t | Inr res \<Rightarrow> res)"

definition header_after :: "thrown + response \<Rightarrow> string \<Rightarrow> jsval option" where
  "header_after r name = getHeader (state_of r) name"

definition threw :: "'e + 'a \<Rightarrow> bool" where
  "threw r = (case r of Inl t \<Rightarrow> True | Inr v \<Rightarrow> False)"

section \<open>Concrete inputs\<close>

text \<open>A request and a response with no headers.\<close>

definition empty_request :: request where
  "empty_request = \<lparr> req_headers = (\<lambda>name. None) \<rparr>"

definition empty_response :: response where
  "empty_response = \<lparr> headers = (\<lambda>name. None) \<rparr>"

text \<open>A response on which an earlier handler has set \<open>Content-Type: image/png\<close>.\<close>

definition png_response :: response where
  "png_response = put_header ''Content-Type'' (JStr ''image/png'') empty_response"

text \<open>A response on which an earlier handler has set \<open>Content-Type: text/html\<close>.\<close>

definition html_response :: response where
  "html_response = put_header ''Content-Type'' (JStr ''text/html'') empty_response"

text \<open>\<open>{ hsts: { preload: true } }\<close>.\<close>

definition preload_only :: options where
  "preload_only =
     no_options\<lparr> hsts_opt := Some \<lparr> enabled_opt = None, maxAge_opt = None,
       includeSubDomains_opt = None, preload_opt = Some True \<rparr> \<rparr>"

text \<open>\<open>{ hsts: { maxAge: 0, includeSubDomains: false, preload: true } }\<close>.\<close>

definition zero_maxAge :: options where
  "zero_maxAge =
     no_options\<lparr> hsts_opt := Some \<lparr> enabled_opt = None, maxAge_opt = Some 0,
       includeSubDomains_opt = Some False, preload_opt = Some True \<rparr> \<rparr>"

text \<open>\<open>{ hsts: { maxAge: 63072000, preload: true } }\<close>.\<close>

definition two_years :: options where
  "two_years =
     no_options\<lparr> hsts_opt := Some \<lparr> enabled_opt = None, maxAge_opt = Some 63072000,
       includeSubDomains_opt = None, preload_opt = Some True \<rparr> \<rparr>"

text \<open>\<open>{ hsts: { enabled: false } }\<close>.\<close>

definition hsts_disabled :: options where
  "hsts_disabled =
     no_options\<lparr> hsts_opt := Some \<lparr> enabled_opt = Some False, maxAge_opt = None,
       includeSubDomains_opt = None, preload_opt = None \<rparr> \<rparr>"

text \<open>\<open>{ csp: { directives: { defaultSrc: ["'self'"] } } }\<close>.\<close>

definition defaultSrc_only :: options where
  "defaultSrc_only =
     no_options\<lparr> csp_opt := Some \<lparr> csp_enabled_opt = None,
       directives_opt = Some (map_of [(''defaultSrc'', JArr [quoted ''self''])]) \<rparr> \<rparr>"

text \<open>\<open>{ csp: { directives: { defaultSrc: "'self'" } } }\<close>: a string where a list is expected.\<close>

definition string_directive :: options where
  "string_directive =
     no_options\<lparr> csp_opt := Some \<lparr> csp_enabled_opt = None,
       directives_opt = Some (map_of [(''defaultSrc'', JStr (quoted ''self''))]) \<rparr> \<rparr>"

text \<open>\<open>{ csp: { directives: { defaultSrc: ["'self'\n"] } } }\<close>: a token that ends in a line feed.\<close>

definition newline_token :: options where
  "newline_token =
     no_options\<lparr> csp_opt := Some \<lparr> csp_enabled_opt = None,
       directives_opt = Some (map_of [(''defaultSrc'', JArr [quoted ''self'' @ [CHR 0x0A]])]) \<rparr> \<rparr>"

text \<open>\<open>{ xFrameOptions: 'DENY\n' }\<close>.\<close>

definition newline_xFrameOptions :: options where
  "newline_xFrameOptions = no_options\<lparr> xFrameOptions_opt := Some (''DENY'' @ [CHR 0x0A]) \<rparr>"

text \<open>\<open>{ xContentTypeOptions: 'nosniff\n' }\<close>.\<close>

definition newline_nosniff :: options where
  "newline_nosniff = no_options\<lparr> xContentTypeOptions_opt := Some (''nosniff'' @ [CHR 0x0A]) \<rparr>"

text \<open>\<open>{ permissionsPolicy: {} }\<close>.\<close>

definition empty_permissions :: options where
  "empty_permissions = no_options\<lparr> permissionsPolicy_opt := Some (PObject []) \<rparr>"

text \<open>\<open>{ permissionsPolicy: { camera: [], geolocation: ["'self'"] } }\<close>.\<close>

definition camera_geolocation :: options where
  "camera_geolocation =
     no_options\<lparr> permissionsPolicy_opt :=
       Some (PObject [(''camera'', JArr []), (''geolocation'', JArr [quoted ''self''])]) \<rparr>"

text \<open>
  \<open>{ permissionsPolicy: { camera: [], geolocation: ["'self'", "https://maps.example.com"],
  microphone: [], usb: ["'self'"] } }\<close>.
\<close>

definition four_features :: options where
  "four_features =
     no_options\<lparr> permissionsPolicy_opt :=
       Some (PObject [(''camera'', JArr []),
                      (''geolocation'', JArr [quoted ''self'', ''https://maps.example.com'']),
                      (''microphone'', JArr []),
                      (''usb'', JArr [quoted ''self''])]) \<rparr>"

text \<open>\<open>{ permissionsPolicy: { b: [], 2: [], a: [], 1: [] } }\<close>: two keys are array indices.\<close>

definition index_keys :: options where
  "index_keys =
     no_options\<lparr> permissionsPolicy_opt :=
       Some (PObject [(''b'', JArr []), (''2'', JArr []), (''a'', JArr []), (''1'', JArr [])]) \<rparr>"

text \<open>
  \<open>{ permissionsPolicy: { usb: ["'self'"], 10: [], 9: [] } }\<close>: the array indices come first,
  in numeric order.
\<close>

definition numeric_keys :: options where
  "numeric_keys =
     no_options\<lparr> permissionsPolicy_opt :=
       Some (PObject [(''usb'', JArr [quoted ''self'']), (''10'', JArr []), (''9'', JArr [])]) \<rparr>"

text \<open>\<open>rateLimitHeaders({ limit: 250, window: 30, remaining: 0 })\<close> and \<open>rateLimitHeaders()\<close>.\<close>

definition rateLimit_example :: rateLimit_options where
  "rateLimit_example = \<lparr> limit_opt = Some 250, window_opt = Some 30, remaining_opt = Some 0 \<rparr>"

definition no_rateLimit_options :: rateLimit_options where
  "no_rateLimit_options = \<lparr> limit_opt = None, window_opt = None, remaining_opt = None \<rparr>"

text \<open>\<open>{ xFrameOptions: ' DENY ' }\<close>: a value with a space on both sides.\<close>

definition padded_xFrameOptions :: options where
  "padded_xFrameOptions = no_options\<lparr> xFrameOptions_opt := Some '' DENY '' \<rparr>"

text \<open>\<open>{ referrerPolicy: '\tno-referrer ' }\<close>: a tab before the value and a space after it.\<close>

definition padded_referrerPolicy :: options where
  "padded_referrerPolicy =
     no_options\<lparr> referrerPolicy_opt := Some (CHR 0x09 # ''no-referrer '') \<rparr>"


text \<open>
  A next handler that counts how often it runs: it keeps the count in the header
  \<open>X-Handler-Calls\<close> of the response, which the middleware never writes.
\<close>

definition handler_calls :: "response \<Rightarrow> int" where
  "handler_calls res =
     (case getHeader res ''X-Handler-Calls'' of Some (JNum n) \<Rightarrow> n | _ \<Rightarrow> 0)"

definition counting_handler :: "response \<Rightarrow> thrown + response" where
  "counting_handler res =
     Inr (put_header ''X-Handler-Calls'' (JNum (handler_calls res + 1)) res)"

section \<open>Auxiliary facts\<close>

subsection \<open>Sequencing\<close>

lemma bind_err_Inr [simp]: "bind_err (Inr v) f = f v"
  by (simp add: bind_err_def)

lemma bind_err_Inl [simp]: "bind_err (Inl e) f = Inl e"
  by (simp add: bind_err_def)

lemma bind_err_return [simp]: "bind_err m Inr = m"
  by (cases m) simp_all

lemma bind_err_assoc: "bind_err (bind_err m f) g = bind_err m (\<lambda>x. bind_err (f x) g)"
  by (cases m) simp_all

lemma bind_err_cong_result:
  "(\<And>v. m = Inr v \<Longrightarrow> f v = g v) \<Longrightarrow> bind_err m f = bind_err m g"
  by (cases m) simp_all

lemma throw_at_Inr [simp]: "throw_at res (Inr v) = Inr v"
  by (simp add: throw_at_def)

lemma throw_at_Inl [simp]: "throw_at res (Inl e) = Inl (e, res)"
  by (simp add: throw_at_def)

lemma state_of_simps [simp]:
  "state_of (Inr res) = res"
  "state_of (Inl (e, res)) = res"
  by (simp_all add: state_of_def)

lemma threw_simps [simp]:
  "threw (Inr v) = False"
  "threw (Inl t) = True"
  by (simp_all add: threw_def)

subsection \<open>Strings\<close>

lemma join_separated: "join sep xs = separated sep xs"
  by (induction sep xs rule: join.induct) simp_all

lemma starts_with_iff: "starts_with s sub \<longleftrightarrow> (\<exists>q. s = sub @ q)"
  by (induction s sub rule: starts_with.induct) auto

lemma str_includes_iff: "str_includes s sub \<longleftrightarrow> (\<exists>p q. s = p @ sub @ q)"
proof (induction s)
  case Nil
  then show ?case by auto
next
  case (Cons c cs)
  show ?case
  proof
    assume "str_includes (c # cs) sub"
    then consider "starts_with (c # cs) sub" | "str_includes cs sub" by auto
    then show "\<exists>p q. c # cs = p @ sub @ q"
    proof cases
      case 1
      then obtain q where "c # cs = sub @ q" by (auto simp: starts_with_iff)
      then have "c # cs = [] @ sub @ q" by simp
      then show ?thesis by blast
    next
      case 2
      then obtain p q where "cs = p @ sub @ q" using Cons.IH by auto
      then have "c # cs = (c # p) @ sub @ q" by simp
      then show ?thesis by blast
    qed
  next
    assume "\<exists>p q. c # cs = p @ sub @ q"
    then obtain p q where pq: "c # cs = p @ sub @ q" by auto
    show "str_includes (c # cs) sub"
    proof (cases p)
      case Nil
      then have "starts_with (c # cs) sub" using pq by (auto simp: starts_with_iff)
      then show ?thesis by simp
    next
      case (Cons a p')
      then have "cs = p' @ sub @ q" using pq by simp
      then have "str_includes cs sub" using Cons.IH by auto
      then show ?thesis by simp
    qed
  qed
qed

lemma is_static_asset_iff:
  "is_static_asset ct \<longleftrightarrow>
     (\<exists>w p q. w \<in> {''image'', ''font'', ''css'', ''javascript''} \<and> ct = p @ w @ q)"
  unfolding is_static_asset_def str_includes_iff by blast

subsection \<open>Decimal numerals\<close>

lemma string_of_nat_small: "n < 10 \<Longrightarrow> string_of_nat n = [digit_char n]"
  by simp

lemma string_of_nat_large:
  "10 \<le> n \<Longrightarrow> string_of_nat n = string_of_nat (n div 10) @ [digit_char (n mod 10)]"
  by simp

declare string_of_nat.simps [simp del]

lemma digit_char_value: "d < 10 \<Longrightarrow> of_char (digit_char d) = 48 + d"
proof -
  assume "d < 10"
  then consider "d = 0" | "d = 1" | "d = 2" | "d = 3" | "d = 4" | "d = 5" | "d = 6"
    | "d = 7" | "d = 8" | "d = 9"
    by atomize_elim arith
  then show ?thesis
    by cases (simp_all add: digit_char_def)
qed

lemma is_digit_digit_char: "d < 10 \<Longrightarrow> is_digit (digit_char d)"
  by (simp add: is_digit_def digit_char_value)

lemma digit_char_zero:
  assumes "d < 10"
  shows "digit_char d = CHR ''0'' \<longleftrightarrow> d = 0"
proof
  assume "digit_char d = CHR ''0''"
  then have "of_char (digit_char d) = (48 :: nat)" by simp
  with digit_char_value [OF assms] show "d = 0" by simp
next
  assume "d = 0"
  then show "digit_char d = CHR ''0''" by (simp add: digit_char_def)
qed

lemma parse_nat_snoc: "parse_nat (s @ [c]) = 10 * parse_nat s + (of_char c - 48)"
  by (simp add: parse_nat_def)

lemma parse_nat_string_of_nat: "parse_nat (string_of_nat n) = n"
proof (induction n rule: string_of_nat.induct)
  case (1 n)
  show ?case
  proof (cases "n < 10")
    case True
    then show ?thesis
      by (simp add: string_of_nat_small parse_nat_def digit_char_value)
  next
    case False
    then have "parse_nat (string_of_nat (n div 10)) = n div 10"
      using "1.IH" by simp
    with False show ?thesis
      by (simp add: string_of_nat_large parse_nat_snoc digit_char_value)
  qed
qed

lemma string_of_nat_nonempty: "string_of_nat n \<noteq> []"
  by (cases "n < 10") (simp_all add: string_of_nat_small string_of_nat_large)

lemma string_of_nat_digits: "list_all is_digit (string_of_nat n)"
proof (induction n rule: string_of_nat.induct)
  case (1 n)
  show ?case
  proof (cases "n < 10")
    case True
    then show ?thesis by (simp add: string_of_nat_small is_digit_digit_char)
  next
    case False
    then have "list_all is_digit (string_of_nat (n div 10))" using "1.IH" by simp
    with False show ?thesis
      by (simp add: string_of_nat_large is_digit_digit_char)
  qed
qed

lemma string_of_nat_leading:
  "string_of_nat n = ''0'' \<or> hd (string_of_nat n) \<noteq> CHR ''0''"
proof (induction n rule: string_of_nat.induct)
  case (1 n)
  show ?case
  proof (cases "n < 10")
    case True
    show ?thesis
    proof (cases "n = 0")
      case True
      then show ?thesis by (simp add: string_of_nat_small digit_char_def)
    next
      case False
      with \<open>n < 10\<close> show ?thesis by (simp add: string_of_nat_small digit_char_zero)
    qed
  next
    case False
    then have ih: "string_of_nat (n div 10) = ''0'' \<or> hd (string_of_nat (n div 10)) \<noteq> CHR ''0''"
      using "1.IH" by simp
    have "string_of_nat (n div 10) \<noteq> ''0''"
    proof
      assume "string_of_nat (n div 10) = ''0''"
      then have "parse_nat (string_of_nat (n div 10)) = parse_nat ''0''" by simp
      moreover have "parse_nat ''0'' = 0" by (simp add: parse_nat_def)
      ultimately have "n div 10 = 0" by (simp only: parse_nat_string_of_nat)
      with False show False by simp
    qed
    with ih have "hd (string_of_nat (n div 10)) \<noteq> CHR ''0''" by simp
    with False show ?thesis
      by (simp add: string_of_nat_large string_of_nat_nonempty)
  qed
qed

lemma canonical_string_of_nat: "canonical_digits (string_of_nat n)"
  using string_of_nat_leading [of n]
  by (simp add: canonical_digits_def string_of_nat_nonempty string_of_nat_digits)

lemma number_toString_decimal: "is_decimal_of (number_toString i) i"
  by (simp add: is_decimal_of_def number_toString_def canonical_string_of_nat
      parse_nat_string_of_nat)

lemma number_toString_examples:
  "number_toString 31536000 = ''31536000''"
  "number_toString 63072000 = ''63072000''"
  "number_toString 0 = ''0''"
  by (simp_all add: number_toString_def string_of_nat_small string_of_nat_large digit_char_def)

subsection \<open>Legal header values\<close>

lemma valid_header_value_Nil [simp]: "valid_header_value []"
  by (simp add: valid_header_value_def)

lemma valid_header_value_Cons:
  "valid_header_value (c # s) \<longleftrightarrow> valid_header_char c \<and> valid_header_value s"
  by (simp add: valid_header_value_def)

lemma valid_header_value_append [simp]:
  "valid_header_value (s @ t) \<longleftrightarrow> valid_header_value s \<and> valid_header_value t"
  by (simp add: valid_header_value_def)

lemma valid_header_char_digit: "is_digit c \<Longrightarrow> valid_header_char c"
  by (simp add: is_digit_def valid_header_char_def Let_def)

lemma valid_header_value_digits: "list_all is_digit s \<Longrightarrow> valid_header_value s"
  by (induction s) (simp_all add: valid_header_value_def valid_header_char_digit)

lemma valid_number_toString [simp]: "valid_header_value (number_toString i)"
  by (simp add: number_toString_def valid_header_value_Cons valid_header_value_digits
      string_of_nat_digits valid_header_char_def)

lemma valid_separated:
  "valid_header_value sep \<Longrightarrow> list_all valid_header_value xs \<Longrightarrow>
     valid_header_value (separated sep xs)"
proof (cases xs)
  case Nil
  then show ?thesis by simp
next
  case (Cons x ys)
  assume sep: "valid_header_value sep" and all: "list_all valid_header_value xs"
  have "valid_header_value (concat (map (\<lambda>y. sep @ y) zs))" if "list_all valid_header_value zs" for zs
    using that sep by (induction zs) simp_all
  with all Cons show ?thesis by simp
qed

lemma valid_literals [simp]:
  "valid_header_value ''max-age=''"
  "valid_header_value ''; includeSubDomains''"
  "valid_header_value ''; preload''"
  "valid_header_value ''; ''"
  "valid_header_value '' ''"
  "valid_header_value '', ''"
  "valid_header_value ''=(''"
  "valid_header_value '')''"
  "valid_header_value ''upgrade-insecure-requests''"
  "valid_header_value ''no-cache''"
  "valid_header_value ''0''"
  "valid_header_value ''DYNAMIC''"
  by (simp_all add: valid_header_value_def valid_header_char_def)

lemma valid_hsts_rendering [simp]: "valid_header_value (hsts_rendering h)"
  unfolding hsts_rendering_def valid_header_value_append by simp

subsection \<open>The header store\<close>

lemma lower_header_names [simp]:
  "lower ''Strict-Transport-Security'' = ''strict-transport-security''"
  "lower ''Content-Security-Policy'' = ''content-security-policy''"
  "lower ''X-Frame-Options'' = ''x-frame-options''"
  "lower ''X-Content-Type-Options'' = ''x-content-type-options''"
  "lower ''X-XSS-Protection'' = ''x-xss-protection''"
  "lower ''Referrer-Policy'' = ''referrer-policy''"
  "lower ''Permissions-Policy'' = ''permissions-policy''"
  "lower ''Cross-Origin-Embedder-Policy'' = ''cross-origin-embedder-policy''"
  "lower ''Cross-Origin-Opener-Policy'' = ''cross-origin-opener-policy''"
  "lower ''Cross-Origin-Resource-Policy'' = ''cross-origin-resource-policy''"
  "lower ''Cache-Control'' = ''cache-control''"
  "lower ''Pragma'' = ''pragma''"
  "lower ''Expires'' = ''expires''"
  "lower ''Content-Type'' = ''content-type''"
  "lower ''X-RateLimit-Limit'' = ''x-ratelimit-limit''"
  "lower ''X-RateLimit-Window'' = ''x-ratelimit-window''"
  "lower ''X-RateLimit-Remaining'' = ''x-ratelimit-remaining''"
  "lower ''CF-Cache-Status'' = ''cf-cache-status''"
  by code_simp+

lemma getHeader_put_header [simp]:
  "getHeader (put_header name v res) h = (if lower h = lower name then Some v else getHeader res h)"
  by (simp add: getHeader_def put_header_def)

lemma getHeader_empty_response [simp]: "getHeader empty_response h = None"
  by (simp add: getHeader_def empty_response_def)

lemma setHeader_JStr:
  "setHeader name (JStr s) res =
     (if valid_header_value s then Inr (put_header name (JStr s) res) else Inl (TypeError, res))"
  by (simp add: setHeader_def)

lemma setHeader_JNum [simp]: "setHeader name (JNum i) res = Inr (put_header name (JNum i) res)"
  by (simp add: setHeader_def)

lemma setHeader_valid:
  "valid_header_value (header_value_string v) \<Longrightarrow> setHeader name v res = Inr (put_header name v res)"
  by (simp add: setHeader_def)

lemma apply_writes_Nil [simp]: "apply_writes [] res = res"
  by (simp add: apply_writes_def)

lemma apply_writes_Cons [simp]:
  "apply_writes (w # ws) res = apply_writes ws (put_header (fst w) (snd w) res)"
  by (simp add: apply_writes_def)

lemma apply_writes_append [simp]:
  "apply_writes (ws @ vs) res = apply_writes vs (apply_writes ws res)"
  by (simp add: apply_writes_def)

lemma try_writes_append:
  "try_writes (ws @ vs) res = bind_err (try_writes ws res) (try_writes vs)"
proof (induction ws arbitrary: res)
  case Nil
  show ?case by simp
next
  case (Cons w ws)
  show ?case
    by (cases "setHeader (fst w) (snd w) res") (simp_all add: Cons.IH)
qed

lemma try_writes_legal:
  "list_all (\<lambda>w. valid_header_value (header_value_string (snd w))) ws \<Longrightarrow>
     try_writes ws res = Inr (apply_writes ws res)"
  by (induction ws arbitrary: res) (simp_all add: setHeader_valid)

lemma try_writes_Nil_fun [simp]: "try_writes [] = Inr"
  by (rule ext) simp

lemma try_writes_header_if:
  "try_writes (header_if c name v) res = (if c then setHeader name (JStr v) res else Inr res)"
  by (simp add: header_if_def)

lemma state_try_writes_frame:
  "list_all (\<lambda>w. lower (fst w) \<noteq> lower h) ws \<Longrightarrow>
     getHeader (state_of (try_writes ws res)) h = getHeader res h"
proof (induction ws arbitrary: res)
  case Nil
  show ?case by simp
next
  case (Cons w ws)
  then have n: "lower h \<noteq> lower (fst w)" and rest: "list_all (\<lambda>w. lower (fst w) \<noteq> lower h) ws"
    by auto
  show ?case
  proof (cases "valid_header_value (header_value_string (snd w))")
    case True
    then show ?thesis
      using Cons.IH [OF rest, of "put_header (fst w) (snd w) res"] n
      by (simp add: setHeader_valid)
  next
    case False
    then show ?thesis by (simp add: setHeader_def)
  qed
qed

lemma try_writes_frame:
  "try_writes ws res = Inr r \<Longrightarrow> list_all (\<lambda>w. lower (fst w) \<noteq> lower h) ws \<Longrightarrow>
     getHeader r h = getHeader res h"
  using state_try_writes_frame [of h ws res] by simp

lemma untouched_header_if [simp]:
  "list_all (\<lambda>w. lower (fst w) \<noteq> k) (header_if c name v) \<longleftrightarrow> (c \<longrightarrow> lower name \<noteq> k)"
  by (simp add: header_if_def)

lemma try_writes_Cons_fun:
  "try_writes (w # ws) = (\<lambda>res. bind_err (setHeader (fst w) (snd w) res) (try_writes ws))"
  by (rule ext) simp

subsection \<open>Objects\<close>

lemma set_define_property: "set (define_property ps kv) \<subseteq> insert kv (set ps)"
  by (induction ps) auto

lemma set_own_properties_aux: "set (foldl define_property acc props) \<subseteq> set acc \<union> set props"
proof (induction props arbitrary: acc)
  case Nil
  show ?case by simp
next
  case (Cons p props)
  show ?case
    using Cons.IH [of "define_property acc p"] set_define_property [of acc p] by auto
qed

lemma set_object_entries: "set (object_entries props) \<subseteq> set props"
  using set_own_properties_aux [of "[]" props]
  by (auto simp: object_entries_def own_properties_def Let_def)

lemma define_property_fresh:
  "fst kv \<notin> fst ` set ps \<Longrightarrow> define_property ps kv = ps @ [kv]"
  by (induction ps) auto

lemma own_properties_aux:
  "distinct (map fst (acc @ props)) \<Longrightarrow> foldl define_property acc props = acc @ props"
proof (induction props arbitrary: acc)
  case Nil
  show ?case by simp
next
  case (Cons p props)
  from Cons.prems have fresh: "fst p \<notin> fst ` set acc" by auto
  from Cons.prems have "distinct (map fst ((acc @ [p]) @ props))" by simp
  then have "foldl define_property (acc @ [p]) props = (acc @ [p]) @ props"
    by (rule Cons.IH)
  then show ?case by (simp add: define_property_fresh [OF fresh])
qed

lemma own_properties_distinct: "distinct (map fst props) \<Longrightarrow> own_properties props = props"
  using own_properties_aux [of "[]" props] by (simp add: own_properties_def)

lemma filter_none: "list_all (\<lambda>x. \<not> P x) xs \<Longrightarrow> filter P xs = []"
  by (induction xs) simp_all

lemma filter_all: "list_all P xs \<Longrightarrow> filter P xs = xs"
  by (induction xs) simp_all

lemma object_entries_input_order:
  assumes "distinct (map fst props)" and "list_all (\<lambda>p. \<not> is_array_index (fst p)) props"
  shows "object_entries props = props"
  using filter_none [OF assms(2)] filter_all [OF assms(2)]
  by (simp add: object_entries_def own_properties_distinct [OF assms(1)])

subsection \<open>The steps of the middleware as writes\<close>

lemma hsts_step_writes:
  "hsts_step cfg res =
     try_writes (header_if (hsts_enabled (hsts cfg)) ''Strict-Transport-Security''
       (hsts_rendering (hsts cfg))) res"
  by (simp add: hsts_step_def try_writes_header_if hsts_rendering_def Let_def)

lemma set_if_truthy_writes:
  "set_if_truthy name v res = try_writes (header_if (v \<noteq> []) name v) res"
  by (simp add: set_if_truthy_def try_writes_header_if)

lemma push_directive_wellformed:
  "directive_wellformed d key \<Longrightarrow>
     push_directive d key name acc = Inr (acc @ render_directive d (key, name))"
  by (cases "d key"; cases "the (d key)")
     (simp_all add: directive_wellformed_def push_directive_def render_directive_def
        join_separated)

lemma push_upgrade_wellformed:
  "directives_wellformed d \<Longrightarrow>
     push_upgrade d acc =
       acc @ (if d ''upgradeInsecureRequests'' = Some (JBool True)
              then [''upgrade-insecure-requests''] else [])"
  by (cases "d ''upgradeInsecureRequests''"; cases "the (d ''upgradeInsecureRequests'')")
     (simp_all add: push_upgrade_def directives_wellformed_def)

lemma csp_value_wellformed:
  assumes "directives_wellformed d"
  shows "csp_value d = Inr (csp_rendering d)"
proof -
  from assms have keys: "directive_wellformed d ''defaultSrc''" "directive_wellformed d ''scriptSrc''"
    "directive_wellformed d ''styleSrc''" "directive_wellformed d ''imgSrc''"
    "directive_wellformed d ''fontSrc''" "directive_wellformed d ''connectSrc''"
    "directive_wellformed d ''frameSrc''" "directive_wellformed d ''objectSrc''"
    "directive_wellformed d ''baseUri''" "directive_wellformed d ''formAction''"
    "directive_wellformed d ''frameAncestors''"
    by (simp_all add: directives_wellformed_def directive_table_def)
  show ?thesis
    unfolding csp_value_def csp_rendering_def directive_table_def
    by (simp add: push_directive_wellformed [OF keys(1)] push_directive_wellformed [OF keys(2)]
        push_directive_wellformed [OF keys(3)] push_directive_wellformed [OF keys(4)]
        push_directive_wellformed [OF keys(5)] push_directive_wellformed [OF keys(6)]
        push_directive_wellformed [OF keys(7)] push_directive_wellformed [OF keys(8)]
        push_directive_wellformed [OF keys(9)] push_directive_wellformed [OF keys(10)]
        push_directive_wellformed [OF keys(11)] push_upgrade_wellformed [OF assms]
        join_separated)
qed

lemma csp_step_writes:
  "directives_wellformed (directives (csp cfg)) \<Longrightarrow>
     csp_step cfg res =
       try_writes (header_if (csp_enabled (csp cfg)) ''Content-Security-Policy''
              (csp_rendering (directives (csp cfg)))) res"
  by (simp add: csp_step_def csp_value_wellformed try_writes_header_if)

lemma permission_entry_wellformed:
  "is_array (snd e) \<Longrightarrow> permission_entry e = Inr (render_permission e)"
  by (cases e; cases "snd e")
     (auto simp: permission_entry_def render_permission_def join_separated)

lemma map_err_permission_entry:
  "list_all (\<lambda>e. is_array (snd e)) entries \<Longrightarrow>
     map_err permission_entry entries = Inr (map render_permission entries)"
  by (induction entries) (simp_all add: permission_entry_wellformed)

lemma object_entries_wellformed:
  "list_all (\<lambda>e. is_array (snd e)) props \<Longrightarrow>
     list_all (\<lambda>e. is_array (snd e)) (object_entries props)"
  using set_object_entries [of props] by (auto simp: list_all_iff)

lemma permissions_step_writes:
  "permissions_wellformed (permissionsPolicy cfg) \<Longrightarrow>
     permissions_step cfg res =
       try_writes
         (case permissionsPolicy cfg of
            PFalsy \<Rightarrow> []
          | PObject props \<Rightarrow>
              [(''Permissions-Policy'', JStr (permissions_rendering (object_entries props)))])
         res"
  by (cases "permissionsPolicy cfg")
     (simp_all add: permissions_step_def permissions_wellformed_def map_err_permission_entry
        object_entries_wellformed permissions_rendering_def join_separated)

lemma is_dynamic_content_wellformed:
  "contentType_wellformed res \<Longrightarrow>
     is_dynamic_content (contentType_of res) = Inr (\<not> is_static_asset (contentType_string res))"
  by (cases "getHeader res ''Content-Type''"; cases "the (getHeader res ''Content-Type'')")
     (auto simp: contentType_wellformed_def is_dynamic_content_def contentType_of_def
        contentType_string_def is_static_asset_def)

lemma cache_step_writes:
  "contentType_wellformed res \<Longrightarrow>
     cache_step cfg res =
       try_writes
         (if is_static_asset (contentType_string res) then []
          else [(''Cache-Control'', JStr (cacheControl cfg)),
                (''Pragma'', JStr ''no-cache''),
                (''Expires'', JStr ''0'')])
         res"
  by (simp add: cache_step_def is_dynamic_content_wellformed try_writes_Cons_fun)

lemma contentType_depends:
  "getHeader r ''Content-Type'' = getHeader res ''Content-Type'' \<Longrightarrow>
     contentType_wellformed r = contentType_wellformed res
     \<and> contentType_string r = contentType_string res"
  by (simp add: contentType_wellformed_def contentType_string_def)

lemma try_writes_chain:
  "bind_err (try_writes ws res) (\<lambda>r. bind_err (try_writes vs r) k) =
     bind_err (try_writes (ws @ vs) res) k"
  by (simp add: try_writes_append bind_err_assoc)

text \<open>On normal input the middleware makes the planned writes, in order, through the sink.\<close>

lemma securityHeadersMiddleware_writes:
  assumes "normal_input cfg res"
  shows "securityHeadersMiddleware cfg req res nxt =
           bind_err (try_writes (planned_writes cfg res) res) nxt"
proof -
  define pre where "pre =
    header_if (hsts_enabled (hsts cfg)) ''Strict-Transport-Security'' (hsts_rendering (hsts cfg))
     @ header_if (csp_enabled (csp cfg)) ''Content-Security-Policy''
         (csp_rendering (directives (csp cfg)))
     @ header_if (xFrameOptions cfg \<noteq> []) ''X-Frame-Options'' (xFrameOptions cfg)
     @ header_if (xContentTypeOptions cfg \<noteq> []) ''X-Content-Type-Options''
         (xContentTypeOptions cfg)
     @ header_if (xXssProtection cfg \<noteq> []) ''X-XSS-Protection'' (xXssProtection cfg)
     @ header_if (referrerPolicy cfg \<noteq> []) ''Referrer-Policy'' (referrerPolicy cfg)
     @ (case permissionsPolicy cfg of
          PFalsy \<Rightarrow> []
        | PObject props \<Rightarrow>
            [(''Permissions-Policy'', JStr (permissions_rendering (object_entries props)))])
     @ header_if (embedderPolicy (crossOrigin cfg) \<noteq> []) ''Cross-Origin-Embedder-Policy''
         (embedderPolicy (crossOrigin cfg))
     @ header_if (openerPolicy (crossOrigin cfg) \<noteq> []) ''Cross-Origin-Opener-Policy''
         (openerPolicy (crossOrigin cfg))
     @ header_if (resourcePolicy (crossOrigin cfg) \<noteq> []) ''Cross-Origin-Resource-Policy''
         (resourcePolicy (crossOrigin cfg))"
  define cache where "cache =
    (if is_static_asset (contentType_string res) then []
     else [(''Cache-Control'', JStr (cacheControl cfg)),
           (''Pragma'', JStr ''no-cache''),
           (''Expires'', JStr ''0'')])"
  from assms have d: "directives_wellformed (directives (csp cfg))"
    and p: "permissions_wellformed (permissionsPolicy cfg)"
    and c: "contentType_wellformed res"
    by (simp_all add: normal_input_def)
  have untouched: "list_all (\<lambda>w. lower (fst w) \<noteq> lower ''Content-Type'') pre"
    by (simp add: pre_def split: permissions.split)
  have "securityHeadersMiddleware cfg req res nxt =
          bind_err (try_writes pre res) (\<lambda>r. bind_err (cache_step cfg r) nxt)"
    unfolding securityHeadersMiddleware_def pre_def
    by (simp add: hsts_step_writes set_if_truthy_writes csp_step_writes [OF d]
        permissions_step_writes [OF p] try_writes_chain)
  also have "\<dots> = bind_err (try_writes pre res) (\<lambda>r. bind_err (try_writes cache r) nxt)"
  proof (rule bind_err_cong_result)
    fix r
    assume "try_writes pre res = Inr r"
    then have "getHeader r ''Content-Type'' = getHeader res ''Content-Type''"
      by (rule try_writes_frame) (rule untouched)
    then have "contentType_wellformed r" "contentType_string r = contentType_string res"
      using c contentType_depends [of r res] by simp_all
    then show "bind_err (cache_step cfg r) nxt = bind_err (try_writes cache r) nxt"
      by (simp add: cache_step_writes cache_def)
  qed
  also have "\<dots> = bind_err (try_writes (pre @ cache) res) nxt"
    by (rule try_writes_chain)
  also have "pre @ cache = planned_writes cfg res"
    by (simp add: pre_def cache_def planned_writes_def)
  finally show ?thesis .
qed

subsection \<open>Legal values\<close>

lemma valid_render_directive:
  "tokens_valid d (fst kn) \<Longrightarrow> valid_header_value (snd kn) \<Longrightarrow>
     list_all valid_header_value (render_directive d kn)"
  by (cases "d (fst kn)"; cases "the (d (fst kn))")
     (simp_all add: render_directive_def tokens_valid_def valid_separated
        valid_header_value_Cons valid_header_char_def)

lemma valid_directive_names: "list_all (\<lambda>kn. valid_header_value (snd kn)) directive_table"
  by (simp add: directive_table_def valid_header_value_def valid_header_char_def)

lemma valid_csp_rendering:
  assumes "directives_header_safe d"
  shows "valid_header_value (csp_rendering d)"
proof -
  have "list_all valid_header_value (concat (map (render_directive d) tbl))"
    if "list_all (\<lambda>kn. tokens_valid d (fst kn)) tbl"
      and "list_all (\<lambda>kn. valid_header_value (snd kn)) tbl" for tbl
    using that by (induction tbl) (simp_all add: valid_render_directive)
  then have "list_all valid_header_value (concat (map (render_directive d) directive_table))"
    using assms valid_directive_names by (simp add: directives_header_safe_def)
  then show ?thesis
    by (simp add: csp_rendering_def valid_separated)
qed

lemma valid_render_permission:
  "valid_header_value (fst e) \<Longrightarrow> list_all valid_header_value (origins_of (snd e)) \<Longrightarrow>
     valid_header_value (render_permission e)"
  by (simp add: render_permission_def valid_separated valid_header_value_Cons
      valid_header_char_def)

lemma valid_permissions_rendering:
  assumes "list_all (\<lambda>e. valid_header_value (fst e)
             \<and> list_all valid_header_value (origins_of (snd e))) props"
  shows "valid_header_value (permissions_rendering (object_entries props))"
proof -
  have "list_all (\<lambda>e. valid_header_value (fst e)
          \<and> list_all valid_header_value (origins_of (snd e))) (object_entries props)"
    using assms set_object_entries [of props] by (auto simp: list_all_iff)
  then have "list_all valid_header_value (map render_permission (object_entries props))"
    by (induction "object_entries props") (simp_all add: list_all_iff valid_render_permission)
  then show ?thesis
    by (simp add: permissions_rendering_def valid_separated)
qed

lemma planned_writes_legal:
  assumes "header_safe cfg"
  shows "list_all (\<lambda>w. valid_header_value (header_value_string (snd w))) (planned_writes cfg res)"
proof -
  have csp: "valid_header_value (csp_rendering (directives (csp cfg)))"
    using assms by (simp add: header_safe_def valid_csp_rendering)
  have pp: "valid_header_value (permissions_rendering (object_entries props))"
    if "permissionsPolicy cfg = PObject props" for props
    using assms that by (simp add: header_safe_def permissions_header_safe_def
        valid_permissions_rendering)
  show ?thesis
    using assms csp pp
    by (simp add: planned_writes_def header_if_def header_safe_def split: permissions.split)
qed

text \<open>On normal input with legal values the middleware hands all the planned writes to \<open>next\<close>.\<close>

lemma securityHeadersMiddleware_normal:
  assumes "normal_input cfg res" and "header_safe cfg"
  shows "securityHeadersMiddleware cfg req res nxt = nxt (apply_writes (planned_writes cfg res) res)"
  by (simp add: securityHeadersMiddleware_writes [OF assms(1)]
      try_writes_legal [OF planned_writes_legal [OF assms(2)]])

lemma securityHeadersMiddleware_result:
  "normal_input cfg res \<Longrightarrow> header_safe cfg \<Longrightarrow>
     securityHeadersMiddleware cfg req res last_handler =
       Inr (apply_writes (planned_writes cfg res) res)"
  by (simp add: securityHeadersMiddleware_normal last_handler_def)

lemma securityHeadersMiddleware_state:
  "normal_input cfg res \<Longrightarrow>
     state_of (securityHeadersMiddleware cfg req res last_handler) =
       state_of (try_writes (planned_writes cfg res) res)"
proof -
  have "last_handler = Inr" by (rule ext) (simp add: last_handler_def)
  then show "normal_input cfg res \<Longrightarrow> ?thesis"
    by (simp add: securityHeadersMiddleware_writes)
qed

subsection \<open>Reading a header after the planned writes\<close>

lemma getHeader_apply_header_if [simp]:
  "getHeader (apply_writes (header_if c name v) res) h =
     (if c \<and> lower h = lower name then Some (JStr v) else getHeader res h)"
  by (simp add: header_if_def)

lemma getHeader_apply_permissions [simp]:
  "getHeader (apply_writes (case p of PFalsy \<Rightarrow> [] | PObject props \<Rightarrow> [(name, f props)]) res) h =
     (case p of
        PFalsy \<Rightarrow> getHeader res h
      | PObject props \<Rightarrow> if lower h = lower name then Some (f props) else getHeader res h)"
  by (cases p) simp_all

lemma getHeader_apply_cache [simp]:
  "getHeader (apply_writes (if c then [] else [(n1, v1), (n2, v2), (n3, v3)]) res) h =
     (if c then getHeader res h
      else if lower h = lower n3 then Some v3
      else if lower h = lower n2 then Some v2
      else if lower h = lower n1 then Some v1
      else getHeader res h)"
  by simp

lemma planned_hsts:
  "getHeader (apply_writes (planned_writes cfg res) res) ''Strict-Transport-Security'' =
     (if hsts_enabled (hsts cfg) then Some (JStr (hsts_rendering (hsts cfg)))
      else getHeader res ''Strict-Transport-Security'')"
  by (simp add: planned_writes_def split: permissions.split)

lemma planned_csp:
  "getHeader (apply_writes (planned_writes cfg res) res) ''Content-Security-Policy'' =
     (if csp_enabled (csp cfg) then Some (JStr (csp_rendering (directives (csp cfg))))
      else getHeader res ''Content-Security-Policy'')"
  by (simp add: planned_writes_def split: permissions.split)

lemma planned_plain:
  "getHeader (apply_writes (planned_writes cfg res) res) ''X-Frame-Options'' =
     (if xFrameOptions cfg \<noteq> [] then Some (JStr (xFrameOptions cfg))
      else getHeader res ''X-Frame-Options'')"
  "getHeader (apply_writes (planned_writes cfg res) res) ''X-Content-Type-Options'' =
     (if xContentTypeOptions cfg \<noteq> [] then Some (JStr (xContentTypeOptions cfg))
      else getHeader res ''X-Content-Type-Options'')"
  "getHeader (apply_writes (planned_writes cfg res) res) ''Referrer-Policy'' =
     (if referrerPolicy cfg \<noteq> [] then Some (JStr (referrerPolicy cfg))
      else getHeader res ''Referrer-Policy'')"
  by (simp_all add: planned_writes_def split: permissions.split)

lemma planned_permissions:
  "getHeader (apply_writes (planned_writes cfg res) res) ''Permissions-Policy'' =
     (case permissionsPolicy cfg of
        PFalsy \<Rightarrow> getHeader res ''Permissions-Policy''
      | PObject props \<Rightarrow> Some (JStr (permissions_rendering (object_entries props))))"
  by (simp add: planned_writes_def split: permissions.split)

lemma planned_cache:
  "getHeader (apply_writes (planned_writes cfg res) res) ''Cache-Control'' =
     (if is_static_asset (contentType_string res) then getHeader res ''Cache-Control''
      else Some (JStr (cacheControl cfg)))"
  "getHeader (apply_writes (planned_writes cfg res) res) ''Pragma'' =
     (if is_static_asset (contentType_string res) then getHeader res ''Pragma''
      else Some (JStr ''no-cache''))"
  "getHeader (apply_writes (planned_writes cfg res) res) ''Expires'' =
     (if is_static_asset (contentType_string res) then getHeader res ''Expires''
      else Some (JStr ''0''))"
  by (simp_all add: planned_writes_def split: permissions.split)

lemma planned_contentType:
  "getHeader (apply_writes (planned_writes cfg res) res) ''Content-Type'' =
     getHeader res ''Content-Type''"
  by (simp add: planned_writes_def split: permissions.split)

subsection \<open>Writing twice\<close>

lemma headers_apply_writes:
  "headers (apply_writes ws res) =
     headers res ++ map_of (rev (map (\<lambda>w. (lower (fst w), snd w)) ws))"
proof (induction ws arbitrary: res)
  case Nil
  show ?case by simp
next
  case (Cons w ws)
  show ?case
    by (simp add: Cons.IH put_header_def)
       (auto simp: fun_eq_iff map_add_def split: option.split)
qed

lemma more_apply_writes: "response.more (apply_writes ws res) = response.more res"
  by (induction ws arbitrary: res) (simp_all add: put_header_def)

lemma apply_writes_idem: "apply_writes ws (apply_writes ws res) = apply_writes ws res"
proof (rule response.equality)
  show "headers (apply_writes ws (apply_writes ws res)) = headers (apply_writes ws res)"
    by (rule ext) (simp add: headers_apply_writes map_add_def split: option.split)
  show "response.more (apply_writes ws (apply_writes ws res)) =
          response.more (apply_writes ws res)"
    by (simp add: more_apply_writes)
qed

lemma planned_writes_cong:
  "contentType_string r = contentType_string res \<Longrightarrow> planned_writes cfg r = planned_writes cfg res"
  by (simp add: planned_writes_def)

lemma normal_input_after:
  assumes "normal_input cfg res"
  shows "normal_input cfg (apply_writes (planned_writes cfg res) res)"
    and "planned_writes cfg (apply_writes (planned_writes cfg res) res) = planned_writes cfg res"
proof -
  let ?r = "apply_writes (planned_writes cfg res) res"
  have ct: "contentType_wellformed ?r = contentType_wellformed res"
    "contentType_string ?r = contentType_string res"
    using contentType_depends [OF planned_contentType, of cfg res] by simp_all
  show "normal_input cfg ?r"
    using assms by (simp add: normal_input_def ct)
  show "planned_writes cfg ?r = planned_writes cfg res"
    by (rule planned_writes_cong [OF ct(2)])
qed

subsection \<open>A run that stops at an illegal value\<close>

lemma state_try_writes_prefix:
  "list_all (\<lambda>w. valid_header_value (header_value_string (snd w))) ws \<Longrightarrow>
     state_of (try_writes (ws @ vs) res) = state_of (try_writes vs (apply_writes ws res))"
  by (simp add: try_writes_append try_writes_legal)

lemma try_writes_stops:
  "list_all (\<lambda>w. valid_header_value (header_value_string (snd w))) ws \<Longrightarrow>
   \<not> valid_header_value (header_value_string (snd w)) \<Longrightarrow>
     try_writes (ws @ w # vs) res = Inl (TypeError, apply_writes ws res)"
  by (simp add: try_writes_append try_writes_legal setHeader_def)

subsection \<open>The default configuration and the examples\<close>

lemma directives_wellformed_default: "directives_wellformed default_directives"
  by (simp add: directives_wellformed_def directive_wellformed_def directive_table_def
      default_directives_def)

lemma directives_header_safe_default: "directives_header_safe default_directives"
  by (simp add: directives_header_safe_def tokens_valid_def directive_table_def
      default_directives_def valid_header_value_def valid_header_char_def)

lemma permissions_default:
  "permissions_wellformed default_permissionsPolicy"
  "permissions_header_safe default_permissionsPolicy"
  by (simp_all add: permissions_wellformed_def permissions_header_safe_def
      default_permissionsPolicy_def valid_header_value_def valid_header_char_def)

lemma securityHeaders_config_default: "securityHeaders_config no_options = default_config"
  by (simp add: securityHeaders_config_def default_config_def no_options_def nullish_def
      chain_def)

lemma default_config_fields [simp]:
  "hsts default_config = \<lparr> hsts_enabled = True, maxAge = 31536000, includeSubDomains = True,
     preload = False \<rparr>"
  "csp default_config = \<lparr> csp_enabled = True, directives = default_directives \<rparr>"
  "xFrameOptions default_config = ''DENY''"
  "xContentTypeOptions default_config = ''nosniff''"
  "xXssProtection default_config = ''1; mode=block''"
  "referrerPolicy default_config = ''strict-origin-when-cross-origin''"
  "permissionsPolicy default_config = default_permissionsPolicy"
  "crossOrigin default_config = \<lparr> embedderPolicy = ''require-corp'',
     openerPolicy = ''same-origin'', resourcePolicy = ''same-origin'' \<rparr>"
  "cacheControl default_config = ''no-store, no-cache, must-revalidate, proxy-revalidate''"
  by (simp_all add: default_config_def)

lemma valid_default_strings:
  "valid_header_value ''DENY''"
  "valid_header_value ''nosniff''"
  "valid_header_value ''1; mode=block''"
  "valid_header_value ''strict-origin-when-cross-origin''"
  "valid_header_value ''require-corp''"
  "valid_header_value ''same-origin''"
  "valid_header_value ''no-store, no-cache, must-revalidate, proxy-revalidate''"
  by (simp_all add: valid_header_value_def valid_header_char_def)

lemma header_safe_default: "header_safe default_config"
  by (simp add: header_safe_def directives_header_safe_default permissions_default
      valid_default_strings)

lemma normal_input_default_config:
  "normal_input default_config empty_response"
  "normal_input default_config png_response"
  "normal_input default_config html_response"
  by (simp_all add: normal_input_def directives_wellformed_default permissions_default
      contentType_wellformed_def png_response_def html_response_def)

lemma contentType_string_examples:
  "contentType_string png_response = ''image/png''"
  "contentType_string html_response = ''text/html''"
  "contentType_string empty_response = []"
  by (simp_all add: contentType_string_def png_response_def html_response_def)

lemma is_static_asset_examples:
  "is_static_asset ''image/png''"
  "\<not> is_static_asset ''text/html''"
  "\<not> is_static_asset []"
  by (simp_all add: is_static_asset_def)

lemma csp_rendering_default:
  "csp_rendering default_directives =
     ''default-src 'self'; script-src 'self' 'unsafe-inline'; style-src 'self' 'unsafe-inline' https://fonts.googleapis.com; img-src 'self' data: https:; font-src 'self' https://fonts.gstatic.com; connect-src 'self'; frame-src 'none'; object-src 'none'; base-uri 'self'; form-action 'self'; frame-ancestors 'none'; upgrade-insecure-requests''"
  by (simp add: csp_rendering_def directive_table_def render_directive_def default_directives_def)

lemma csp_rendering_defaultSrc_only:
  "csp_rendering (map_of [(''defaultSrc'', JArr [quoted ''self''])]) = ''default-src '' @ quoted ''self''"
  by (simp add: csp_rendering_def directive_table_def render_directive_def)

lemma example_configs:
  "securityHeaders_config zero_maxAge =
     default_config\<lparr> hsts := \<lparr> hsts_enabled = True, maxAge = 0, includeSubDomains = False,
       preload = True \<rparr> \<rparr>"
  "securityHeaders_config two_years =
     default_config\<lparr> hsts := \<lparr> hsts_enabled = True, maxAge = 63072000,
       includeSubDomains = True, preload = True \<rparr> \<rparr>"
  "securityHeaders_config hsts_disabled =
     default_config\<lparr> hsts := \<lparr> hsts_enabled = False, maxAge = 31536000,
       includeSubDomains = True, preload = False \<rparr> \<rparr>"
  "securityHeaders_config defaultSrc_only =
     default_config\<lparr> csp := \<lparr> csp_enabled = True,
       directives = map_of [(''defaultSrc'', JArr [quoted ''self''])] \<rparr> \<rparr>"
  "securityHeaders_config string_directive =
     default_config\<lparr> csp := \<lparr> csp_enabled = True,
       directives = map_of [(''defaultSrc'', JStr (quoted ''self''))] \<rparr> \<rparr>"
  "securityHeaders_config newline_token =
     default_config\<lparr> csp := \<lparr> csp_enabled = True,
       directives = map_of [(''defaultSrc'', JArr [quoted ''self'' @ [CHR 0x0A]])] \<rparr> \<rparr>"
  "securityHeaders_config newline_xFrameOptions =
     default_config\<lparr> xFrameOptions := ''DENY'' @ [CHR 0x0A] \<rparr>"
  "securityHeaders_config newline_nosniff =
     default_config\<lparr> xContentTypeOptions := ''nosniff'' @ [CHR 0x0A] \<rparr>"
  "securityHeaders_config padded_xFrameOptions = default_config\<lparr> xFrameOptions := '' DENY '' \<rparr>"
  "securityHeaders_config padded_referrerPolicy =
     default_config\<lparr> referrerPolicy := CHR 0x09 # ''no-referrer '' \<rparr>"
  "securityHeaders_config numeric_keys =
     default_config\<lparr> permissionsPolicy :=
       PObject [(''usb'', JArr [quoted ''self'']), (''10'', JArr []), (''9'', JArr [])] \<rparr>"
  "securityHeaders_config empty_permissions = default_config\<lparr> permissionsPolicy := PObject [] \<rparr>"
  "securityHeaders_config camera_geolocation =
     default_config\<lparr> permissionsPolicy :=
       PObject [(''camera'', JArr []), (''geolocation'', JArr [quoted ''self''])] \<rparr>"
  "securityHeaders_config four_features =
     default_config\<lparr> permissionsPolicy :=
       PObject [(''camera'', JArr []),
                (''geolocation'', JArr [quoted ''self'', ''https://maps.example.com'']),
                (''microphone'', JArr []),
                (''usb'', JArr [quoted ''self''])] \<rparr>"
  "securityHeaders_config index_keys =
     default_config\<lparr> permissionsPolicy :=
       PObject [(''b'', JArr []), (''2'', JArr []), (''a'', JArr []), (''1'', JArr [])] \<rparr>"
  by (simp_all add: securityHeaders_config_def default_config_def no_options_def nullish_def
      chain_def zero_maxAge_def two_years_def hsts_disabled_def defaultSrc_only_def
      string_directive_def newline_token_def newline_xFrameOptions_def newline_nosniff_def
      padded_xFrameOptions_def empty_permissions_def camera_geolocation_def four_features_def
      index_keys_def padded_referrerPolicy_def numeric_keys_def)

lemma normal_input_hsts_update [simp]:
  "normal_input (cfg\<lparr> hsts := h \<rparr>) res = normal_input cfg res"
  by (simp add: normal_input_def)

lemma normal_input_plain_update [simp]:
  "normal_input (cfg\<lparr> xFrameOptions := v \<rparr>) res = normal_input cfg res"
  "normal_input (cfg\<lparr> xContentTypeOptions := v \<rparr>) res = normal_input cfg res"
  "normal_input (cfg\<lparr> referrerPolicy := v \<rparr>) res = normal_input cfg res"
  by (simp_all add: normal_input_def)

lemma normal_input_examples:
  "normal_input (securityHeaders_config no_options) empty_response"
  "normal_input (securityHeaders_config no_options) png_response"
  "normal_input (securityHeaders_config no_options) html_response"
  "normal_input (securityHeaders_config newline_xFrameOptions) empty_response"
  "normal_input (securityHeaders_config newline_nosniff) html_response"
  "normal_input (securityHeaders_config padded_xFrameOptions) empty_response"
  "normal_input (securityHeaders_config padded_referrerPolicy) empty_response"
  by (simp_all add: securityHeaders_config_default example_configs normal_input_default_config)

lemma normal_input_csp_examples:
  "normal_input (securityHeaders_config defaultSrc_only) empty_response"
  "normal_input (securityHeaders_config newline_token) empty_response"
  by (simp_all add: example_configs normal_input_def permissions_default
      directives_wellformed_def directive_wellformed_def directive_table_def
      contentType_wellformed_def)

lemma normal_input_permissions_examples:
  "normal_input (securityHeaders_config empty_permissions) empty_response"
  "normal_input (securityHeaders_config camera_geolocation) empty_response"
  "normal_input (securityHeaders_config four_features) empty_response"
  "normal_input (securityHeaders_config index_keys) empty_response"
  "normal_input (securityHeaders_config numeric_keys) empty_response"
  by (simp_all add: example_configs normal_input_def directives_wellformed_default
      permissions_wellformed_def contentType_wellformed_def)

lemma header_safe_csp_update:
  "header_safe cfg \<Longrightarrow> directives_header_safe (directives c) \<Longrightarrow> header_safe (cfg\<lparr> csp := c \<rparr>)"
  by (simp add: header_safe_def)

lemma header_safe_permissions_update:
  "header_safe cfg \<Longrightarrow> permissions_header_safe p \<Longrightarrow>
     header_safe (cfg\<lparr> permissionsPolicy := p \<rparr>)"
  by (simp add: header_safe_def)

lemma header_safe_examples:
  "header_safe (securityHeaders_config no_options)"
  "header_safe (securityHeaders_config defaultSrc_only)"
  "header_safe (securityHeaders_config empty_permissions)"
  "header_safe (securityHeaders_config camera_geolocation)"
  "header_safe (securityHeaders_config four_features)"
  "header_safe (securityHeaders_config index_keys)"
  "header_safe (securityHeaders_config numeric_keys)"
proof -
  show "header_safe (securityHeaders_config no_options)"
    by (simp add: securityHeaders_config_default header_safe_default)
  show "header_safe (securityHeaders_config defaultSrc_only)"
    unfolding example_configs
    by (rule header_safe_csp_update [OF header_safe_default])
       (simp add: directives_header_safe_def tokens_valid_def directive_table_def
          valid_header_value_def valid_header_char_def)
  show "header_safe (securityHeaders_config empty_permissions)"
    unfolding example_configs
    by (rule header_safe_permissions_update [OF header_safe_default])
       (simp add: permissions_header_safe_def)
  show "header_safe (securityHeaders_config camera_geolocation)"
    unfolding example_configs
    by (rule header_safe_permissions_update [OF header_safe_default])
       (simp add: permissions_header_safe_def valid_header_value_def valid_header_char_def)
  show "header_safe (securityHeaders_config four_features)"
    unfolding example_configs
    by (rule header_safe_permissions_update [OF header_safe_default])
       (simp add: permissions_header_safe_def valid_header_value_def valid_header_char_def)
  show "header_safe (securityHeaders_config index_keys)"
    unfolding example_configs
    by (rule header_safe_permissions_update [OF header_safe_default])
       (simp add: permissions_header_safe_def valid_header_value_def valid_header_char_def)
  show "header_safe (securityHeaders_config numeric_keys)"
    unfolding example_configs
    by (rule header_safe_permissions_update [OF header_safe_default])
       (simp add: permissions_header_safe_def valid_header_value_def valid_header_char_def)
qed

lemma run_stops:
  assumes "normal_input cfg res"
    and "planned_writes cfg res = ws @ w # vs"
    and "list_all (\<lambda>w. valid_header_value (header_value_string (snd w))) ws"
    and "\<not> valid_header_value (header_value_string (snd w))"
  shows "securityHeadersMiddleware cfg req res nxt = Inl (TypeError, apply_writes ws res)"
  by (simp add: securityHeadersMiddleware_writes [OF assms(1)] assms(2)
      try_writes_stops [OF assms(3,4)])

lemma newline_xFrameOptions_stops:
  "securityHeaders newline_xFrameOptions req empty_response nxt =
     Inl (TypeError, apply_writes
       [(''Strict-Transport-Security'', JStr ''max-age=31536000; includeSubDomains''),
        (''Content-Security-Policy'', JStr (csp_rendering default_directives))]
       empty_response)"
proof -
  let ?cfg = "securityHeaders_config newline_xFrameOptions"
  let ?ws = "[(''Strict-Transport-Security'', JStr ''max-age=31536000; includeSubDomains''),
        (''Content-Security-Policy'', JStr (csp_rendering default_directives))]"
  have "\<exists>vs. planned_writes ?cfg empty_response =
          ?ws @ (''X-Frame-Options'', JStr (''DENY'' @ [CHR 0x0A])) # vs"
    by (simp add: planned_writes_def header_if_def example_configs hsts_rendering_def
        number_toString_examples)
  then obtain vs where planned: "planned_writes ?cfg empty_response =
          ?ws @ (''X-Frame-Options'', JStr (''DENY'' @ [CHR 0x0A])) # vs"
    by blast
  have legal: "list_all (\<lambda>w. valid_header_value (header_value_string (snd w))) ?ws"
    using valid_csp_rendering [OF directives_header_safe_default]
    by (simp add: valid_header_value_def valid_header_char_def)
  have bad: "\<not> valid_header_value (header_value_string
      (snd (''X-Frame-Options'', JStr (''DENY'' @ [CHR 0x0A]))))"
    by (simp add: valid_header_value_def valid_header_char_def)
  show ?thesis
    unfolding securityHeaders_def
    by (rule run_stops [OF normal_input_examples(4) planned legal bad])
qed

lemma newline_nosniff_stops:
  "securityHeaders newline_nosniff req html_response nxt =
     Inl (TypeError, apply_writes
       [(''Strict-Transport-Security'', JStr ''max-age=31536000; includeSubDomains''),
        (''Content-Security-Policy'', JStr (csp_rendering default_directives)),
        (''X-Frame-Options'', JStr ''DENY'')]
       html_response)"
proof -
  let ?cfg = "securityHeaders_config newline_nosniff"
  let ?ws = "[(''Strict-Transport-Security'', JStr ''max-age=31536000; includeSubDomains''),
        (''Content-Security-Policy'', JStr (csp_rendering default_directives)),
        (''X-Frame-Options'', JStr ''DENY'')]"
  have "\<exists>vs. planned_writes ?cfg html_response =
          ?ws @ (''X-Content-Type-Options'', JStr (''nosniff'' @ [CHR 0x0A])) # vs"
    by (simp add: planned_writes_def header_if_def example_configs hsts_rendering_def
        number_toString_examples)
  then obtain vs where planned: "planned_writes ?cfg html_response =
          ?ws @ (''X-Content-Type-Options'', JStr (''nosniff'' @ [CHR 0x0A])) # vs"
    by blast
  have legal: "list_all (\<lambda>w. valid_header_value (header_value_string (snd w))) ?ws"
    using valid_csp_rendering [OF directives_header_safe_default]
    by (simp add: valid_header_value_def valid_header_char_def)
  have bad: "\<not> valid_header_value (header_value_string
      (snd (''X-Content-Type-Options'', JStr (''nosniff'' @ [CHR 0x0A]))))"
    by (simp add: valid_header_value_def valid_header_char_def)
  show ?thesis
    unfolding securityHeaders_def
    by (rule run_stops [OF normal_input_examples(5) planned legal bad])
qed

lemma object_entries_examples:
  "object_entries [(''b'', JArr []), (''2'', JArr []), (''a'', JArr []), (''1'', JArr [])] =
     [(''1'', JArr []), (''2'', JArr []), (''b'', JArr []), (''a'', JArr [])]"
  "object_entries ([] :: (string \<times> jsval) list) = []"
  "object_entries [(''camera'', JArr []), (''geolocation'', JArr [quoted ''self''])] =
     [(''camera'', JArr []), (''geolocation'', JArr [quoted ''self''])]"
  "object_entries [(''camera'', JArr []),
                (''geolocation'', JArr [quoted ''self'', ''https://maps.example.com'']),
                (''microphone'', JArr []),
                (''usb'', JArr [quoted ''self''])] =
     [(''camera'', JArr []),
                (''geolocation'', JArr [quoted ''self'', ''https://maps.example.com'']),
                (''microphone'', JArr []),
                (''usb'', JArr [quoted ''self''])]"
  by (simp_all add: object_entries_def own_properties_def is_array_index_def
      canonical_digits_def is_digit_def parse_nat_def)

lemma getHeader_html_response:
  "getHeader html_response ''Cache-Control'' = None"
  "getHeader html_response ''Pragma'' = None"
  "getHeader html_response ''Expires'' = None"
  by (simp_all add: html_response_def)

lemma getHeader_png_response:
  "getHeader png_response ''Cache-Control'' = None"
  "getHeader png_response ''Pragma'' = None"
  "getHeader png_response ''Expires'' = None"
  by (simp_all add: png_response_def)

lemma lower_handler_calls [simp]: "lower ''X-Handler-Calls'' = ''x-handler-calls''"
  by code_simp

lemma planned_handler_calls:
  "getHeader (apply_writes (planned_writes cfg res) res) ''X-Handler-Calls'' =
     getHeader res ''X-Handler-Calls''"
  by (simp add: planned_writes_def split: permissions.split)

lemma handler_calls_counting_handler:
  "handler_calls (state_of (counting_handler res)) = handler_calls res + 1"
  by (simp add: counting_handler_def handler_calls_def)

lemma string_directive_throws:
  "threw (securityHeaders string_directive req res nxt)"
  by (simp add: securityHeaders_def securityHeadersMiddleware_def csp_step_def csp_value_def
      push_directive_def string_directive_def securityHeaders_config_def no_options_def
      nullish_def chain_def hsts_step_def Let_def setHeader_JStr hsts_rendering_def
      throw_at_def bind_err_def valid_hsts_rendering [unfolded hsts_rendering_def])

subsection \<open>The Hono adapter\<close>

lemma buildConfig_fields:
  "a_hsts (buildConfig opts) = hsts (securityHeaders_config opts)"
  "a_xFrameOptions (buildConfig opts) = xFrameOptions (securityHeaders_config opts)"
  "a_xContentTypeOptions (buildConfig opts) = xContentTypeOptions (securityHeaders_config opts)"
  "a_xXssProtection (buildConfig opts) = xXssProtection (securityHeaders_config opts)"
  "a_referrerPolicy (buildConfig opts) = referrerPolicy (securityHeaders_config opts)"
  by (simp_all add: buildConfig_def securityHeaders_config_def)

lemma set_strip_whitespace: "set (strip_whitespace s) \<subseteq> set s"
proof -
  have "set (strip_whitespace s) \<subseteq> set (dropWhile http_whitespace s)"
    unfolding strip_whitespace_def using set_dropWhileD by fastforce
  also have "\<dots> \<subseteq> set s"
    using set_dropWhileD by fastforce
  finally show ?thesis .
qed

lemma valid_not_forbidden: "valid_header_char c \<Longrightarrow> \<not> forbidden_in_value c"
  by (auto simp: valid_header_char_def forbidden_in_value_def Let_def)

lemma strip_whitespace_legal:
  assumes "valid_header_value v"
  shows "\<not> list_ex forbidden_in_value (strip_whitespace v)"
proof -
  have "\<forall>c \<in> set (strip_whitespace v). valid_header_char c"
    using assms set_strip_whitespace [of v] by (auto simp: valid_header_value_def list_all_iff)
  then show ?thesis
    by (auto simp: list_ex_iff valid_not_forbidden)
qed

lemma hono_header_legal:
  "valid_header_value v \<Longrightarrow>
     hono_header name v c = Inr (put_header name (JStr (strip_whitespace v)) c)"
  by (simp add: hono_header_def Let_def strip_whitespace_legal)

lemma strip_whitespace_id:
  assumes "s \<noteq> []" and "\<not> http_whitespace (hd s)" and "\<not> http_whitespace (last s)"
  shows "strip_whitespace s = s"
proof -
  from assms(1,2) have front: "dropWhile http_whitespace s = s"
    by (cases s) simp_all
  from assms(1,3) have "dropWhile http_whitespace (rev s) = rev s"
    by (cases "rev s") (simp_all add: hd_rev [symmetric])
  with front show ?thesis
    by (simp add: strip_whitespace_def)
qed

lemma digit_not_whitespace: "is_digit c \<Longrightarrow> \<not> http_whitespace c"
  by (simp add: is_digit_def http_whitespace_def)

lemma last_number_toString: "\<not> http_whitespace (last (number_toString i))"
proof -
  have "last (number_toString i) = last (string_of_nat (nat \<bar>i\<bar>))"
    by (simp add: number_toString_def string_of_nat_nonempty abs_if)
  moreover have "last (string_of_nat (nat \<bar>i\<bar>)) \<in> set (string_of_nat (nat \<bar>i\<bar>))"
    by (rule last_in_set) (rule string_of_nat_nonempty)
  ultimately have "is_digit (last (number_toString i))"
    using string_of_nat_digits [of "nat \<bar>i\<bar>"] by (simp add: list_all_iff)
  then show ?thesis by (rule digit_not_whitespace)
qed

lemma number_toString_nonempty: "number_toString i \<noteq> []"
  by (simp add: number_toString_def string_of_nat_nonempty)

lemma strip_whitespace_hsts_rendering:
  "strip_whitespace (hsts_rendering h) = hsts_rendering h"
proof (rule strip_whitespace_id)
  show "hsts_rendering h \<noteq> []"
    by (simp add: hsts_rendering_def)
  show "\<not> http_whitespace (hd (hsts_rendering h))"
    by (simp add: hsts_rendering_def http_whitespace_def)
  show "\<not> http_whitespace (last (hsts_rendering h))"
    using last_number_toString [of "maxAge h"]
    by (simp add: hsts_rendering_def http_whitespace_def number_toString_nonempty)
qed

lemma hono_header_hsts:
  "hono_header name (hsts_rendering h) c = Inr (put_header name (JStr (hsts_rendering h)) c)"
  using hono_header_legal [OF valid_hsts_rendering, of name h c]
  by (simp add: strip_whitespace_hsts_rendering)

lemma securityHeadersHono_handler_hsts:
  "securityHeadersHono_handler cfg c last_handler =
     bind_err (if hsts_enabled (a_hsts cfg)
               then hono_header ''Strict-Transport-Security'' (hsts_rendering (a_hsts cfg)) c
               else Inr c) (\<lambda>c.
     bind_err (hono_header ''X-Frame-Options'' (a_xFrameOptions cfg) c) (\<lambda>c.
     bind_err (hono_header ''X-Content-Type-Options'' (a_xContentTypeOptions cfg) c) (\<lambda>c.
     hono_header ''Referrer-Policy'' (a_referrerPolicy cfg) c)))"
  by (simp add: securityHeadersHono_handler_def last_handler_def hsts_rendering_def Let_def)

lemma securityHeadersHono_result:
  assumes "valid_header_value (xFrameOptions (securityHeaders_config opts))"
    and "valid_header_value (xContentTypeOptions (securityHeaders_config opts))"
    and "valid_header_value (referrerPolicy (securityHeaders_config opts))"
  shows "securityHeadersHono opts res last_handler =
     Inr (put_header ''Referrer-Policy''
            (JStr (strip_whitespace (referrerPolicy (securityHeaders_config opts))))
         (put_header ''X-Content-Type-Options''
            (JStr (strip_whitespace (xContentTypeOptions (securityHeaders_config opts))))
         (put_header ''X-Frame-Options''
            (JStr (strip_whitespace (xFrameOptions (securityHeaders_config opts))))
         (apply_writes (header_if (hsts_enabled (hsts (securityHeaders_config opts)))
            ''Strict-Transport-Security'' (hsts_rendering (hsts (securityHeaders_config opts))))
            res))))"
  by (simp add: securityHeadersHono_def securityHeadersHono_handler_hsts buildConfig_fields
      hono_header_hsts hono_header_legal assms header_if_def)

lemma header_safe_padded:
  "header_safe (securityHeaders_config padded_xFrameOptions)"
  "header_safe (securityHeaders_config padded_referrerPolicy)"
  using header_safe_default
  by (simp_all add: example_configs header_safe_def valid_header_value_def valid_header_char_def)

section \<open>Resolving the options\<close>

text \<open>
  C1. \<open>securityHeaders\<close> merges the options over the defaults field by field. With no
  options the resolved configuration is the default one. For every options object, every
  field of the resolved configuration is the value supplied for that very field, and the
  default of that field when the field, or the nested object it lives in, was left out;
  so a sub-field of \<open>hsts\<close>, \<open>csp\<close> or \<open>crossOrigin\<close> is overridden without touching its
  siblings. A supplied directive map or permissions policy is taken whole: nothing of the
  default map is merged into it.
\<close>

theorem securityHeaders_config_merges_over_defaults:
  "securityHeaders_config no_options = default_config
   \<and> hsts_enabled (hsts (securityHeaders_config opts)) =
       (case hsts_opt opts of None \<Rightarrow> hsts_enabled (hsts default_config)
        | Some h \<Rightarrow> (case enabled_opt h of None \<Rightarrow> hsts_enabled (hsts default_config) | Some v \<Rightarrow> v))
   \<and> maxAge (hsts (securityHeaders_config opts)) =
       (case hsts_opt opts of None \<Rightarrow> maxAge (hsts default_config)
        | Some h \<Rightarrow> (case maxAge_opt h of None \<Rightarrow> maxAge (hsts default_config) | Some v \<Rightarrow> v))
   \<and> includeSubDomains (hsts (securityHeaders_config opts)) =
       (case hsts_opt opts of None \<Rightarrow> includeSubDomains (hsts default_config)
        | Some h \<Rightarrow> (case includeSubDomains_opt h of
                      None \<Rightarrow> includeSubDomains (hsts default_config) | Some v \<Rightarrow> v))
   \<and> preload (hsts (securityHeaders_config opts)) =
       (case hsts_opt opts of None \<Rightarrow> preload (hsts default_config)
        | Some h \<Rightarrow> (case preload_opt h of None \<Rightarrow> preload (hsts default_config) | Some v \<Rightarrow> v))
   \<and> csp_enabled (csp (securityHeaders_config opts)) =
       (case csp_opt opts of None \<Rightarrow> csp_enabled (csp default_config)
        | Some c \<Rightarrow> (case csp_enabled_opt c of None \<Rightarrow> csp_enabled (csp default_config) | Some v \<Rightarrow> v))
   \<and> directives (csp (securityHeaders_config opts)) =
       (case csp_opt opts of None \<Rightarrow> directives (csp default_config)
        | Some c \<Rightarrow> (case directives_opt c of None \<Rightarrow> directives (csp default_config) | Some d \<Rightarrow> d))
   \<and> xFrameOptions (securityHeaders_config opts) =
       (case xFrameOptions_opt opts of None \<Rightarrow> xFrameOptions default_config | Some v \<Rightarrow> v)
   \<and> xContentTypeOptions (securityHeaders_config opts) =
       (case xContentTypeOptions_opt opts of None \<Rightarrow> xContentTypeOptions default_config | Some v \<Rightarrow> v)
   \<and> xXssProtection (securityHeaders_config opts) =
       (case xXssProtection_opt opts of None \<Rightarrow> xXssProtection default_config | Some v \<Rightarrow> v)
   \<and> referrerPolicy (securityHeaders_config opts) =
       (case referrerPolicy_opt opts of None \<Rightarrow> referrerPolicy default_config | Some v \<Rightarrow> v)
   \<and> permissionsPolicy (securityHeaders_config opts) =
       (case permissionsPolicy_opt opts of None \<Rightarrow> permissionsPolicy default_config | Some p \<Rightarrow> p)
   \<and> embedderPolicy (crossOrigin (securityHeaders_config opts)) =
       (case crossOrigin_opt opts of None \<Rightarrow> embedderPolicy (crossOrigin default_config)
        | Some c \<Rightarrow> (case embedderPolicy_opt c of
                      None \<Rightarrow> embedderPolicy (crossOrigin default_config) | Some v \<Rightarrow> v))
   \<and> openerPolicy (crossOrigin (securityHeaders_config opts)) =
       (case crossOrigin_opt opts of None \<Rightarrow> openerPolicy (crossOrigin default_config)
        | Some c \<Rightarrow> (case openerPolicy_opt c of
                      None \<Rightarrow> openerPolicy (crossOrigin default_config) | Some v \<Rightarrow> v))
   \<and> resourcePolicy (crossOrigin (securityHeaders_config opts)) =
       (case crossOrigin_opt opts of None \<Rightarrow> resourcePolicy (crossOrigin default_config)
        | Some c \<Rightarrow> (case resourcePolicy_opt c of
                      None \<Rightarrow> resourcePolicy (crossOrigin default_config) | Some v \<Rightarrow> v))
   \<and> cacheControl (securityHeaders_config opts) =
       (case cacheControl_opt opts of None \<Rightarrow> cacheControl default_config | Some v \<Rightarrow> v)"
proof (intro conjI)
  show "securityHeaders_config no_options = default_config"
    by (simp add: securityHeaders_config_def default_config_def no_options_def nullish_def
        chain_def)
qed (simp_all add: securityHeaders_config_def default_config_def nullish_def chain_def
      split: option.split)

text \<open>
  A partial nested object: \<open>{ hsts: { preload: true } }\<close> changes \<open>hsts.preload\<close> and
  nothing else.
\<close>

lemma preload_only_config:
  "securityHeaders_config preload_only =
     default_config\<lparr> hsts := (hsts default_config)\<lparr> preload := True \<rparr> \<rparr>"
  by (simp add: preload_only_def securityHeaders_config_def default_config_def no_options_def
      nullish_def chain_def)

section \<open>The headers written by the middleware\<close>

text \<open>
  \<open>header_after\<close> reads a header on the response as the run leaves it, whether the run
  returned or threw. A header the middleware writes has the written value there; a header
  it does not write is as it was before, in particular absent when it was absent.
\<close>

text \<open>
  C2. For every configuration and response of normal input, with \<open>maxAge\<close> a safe
  integer, the middleware writes \<open>Strict-Transport-Security\<close> if and only if
  \<open>hsts.enabled\<close> is true: when it is, the value is \<open>max-age=\<close>, the decimal numeral of
  \<open>maxAge\<close> (digits only after an optional minus sign, no leading zero, reading back as
  \<open>maxAge\<close>), then \<open>; includeSubDomains\<close> exactly when that flag is true, then
  \<open>; preload\<close> exactly when that flag is true; when it is not, the header is left as it
  was. This holds also for a run that throws at a later header.
\<close>

theorem hsts_header_iff_enabled:
  assumes "normal_input cfg res" and "safe_integer (maxAge (hsts cfg))"
  shows "header_after (securityHeadersMiddleware cfg req res last_handler)
             ''Strict-Transport-Security'' =
           (if hsts_enabled (hsts cfg)
            then Some (JStr (''max-age='' @ number_toString (maxAge (hsts cfg))
                   @ (if includeSubDomains (hsts cfg) then ''; includeSubDomains'' else [])
                   @ (if preload (hsts cfg) then ''; preload'' else [])))
            else getHeader res ''Strict-Transport-Security'')
         \<and> is_decimal_of (number_toString (maxAge (hsts cfg))) (maxAge (hsts cfg))"
proof
  define first where "first =
    header_if (hsts_enabled (hsts cfg)) ''Strict-Transport-Security'' (hsts_rendering (hsts cfg))"
  define rest where "rest =
     header_if (csp_enabled (csp cfg)) ''Content-Security-Policy''
         (csp_rendering (directives (csp cfg)))
     @ header_if (xFrameOptions cfg \<noteq> []) ''X-Frame-Options'' (xFrameOptions cfg)
     @ header_if (xContentTypeOptions cfg \<noteq> []) ''X-Content-Type-Options''
         (xContentTypeOptions cfg)
     @ header_if (xXssProtection cfg \<noteq> []) ''X-XSS-Protection'' (xXssProtection cfg)
     @ header_if (referrerPolicy cfg \<noteq> []) ''Referrer-Policy'' (referrerPolicy cfg)
     @ (case permissionsPolicy cfg of
          PFalsy \<Rightarrow> []
        | PObject props \<Rightarrow>
            [(''Permissions-Policy'', JStr (permissions_rendering (object_entries props)))])
     @ header_if (embedderPolicy (crossOrigin cfg) \<noteq> []) ''Cross-Origin-Embedder-Policy''
         (embedderPolicy (crossOrigin cfg))
     @ header_if (openerPolicy (crossOrigin cfg) \<noteq> []) ''Cross-Origin-Opener-Policy''
         (openerPolicy (crossOrigin cfg))
     @ header_if (resourcePolicy (crossOrigin cfg) \<noteq> []) ''Cross-Origin-Resource-Policy''
         (resourcePolicy (crossOrigin cfg))
     @ (if is_static_asset (contentType_string res) then []
        else [(''Cache-Control'', JStr (cacheControl cfg)),
              (''Pragma'', JStr ''no-cache''),
              (''Expires'', JStr ''0'')])"
  have planned: "planned_writes cfg res = first @ rest"
    by (simp add: planned_writes_def first_def rest_def)
  have legal: "list_all (\<lambda>w. valid_header_value (header_value_string (snd w))) first"
    by (simp add: first_def header_if_def)
  have untouched: "list_all (\<lambda>w. lower (fst w) \<noteq> lower ''Strict-Transport-Security'') rest"
    by (simp add: rest_def split: permissions.split)
  have "header_after (securityHeadersMiddleware cfg req res last_handler)
          ''Strict-Transport-Security''
        = getHeader (state_of (try_writes rest (apply_writes first res)))
            ''Strict-Transport-Security''"
    by (simp add: header_after_def securityHeadersMiddleware_state [OF assms(1)] planned
        state_try_writes_prefix [OF legal])
  also have "\<dots> = getHeader (apply_writes first res) ''Strict-Transport-Security''"
    by (rule state_try_writes_frame [OF untouched])
  also have "\<dots> = (if hsts_enabled (hsts cfg)
            then Some (JStr (''max-age='' @ number_toString (maxAge (hsts cfg))
                   @ (if includeSubDomains (hsts cfg) then ''; includeSubDomains'' else [])
                   @ (if preload (hsts cfg) then ''; preload'' else [])))
            else getHeader res ''Strict-Transport-Security'')"
    by (simp add: first_def hsts_rendering_def)
  finally show "header_after (securityHeadersMiddleware cfg req res last_handler)
             ''Strict-Transport-Security'' =
           (if hsts_enabled (hsts cfg)
            then Some (JStr (''max-age='' @ number_toString (maxAge (hsts cfg))
                   @ (if includeSubDomains (hsts cfg) then ''; includeSubDomains'' else [])
                   @ (if preload (hsts cfg) then ''; preload'' else [])))
            else getHeader res ''Strict-Transport-Security'')" .
  show "is_decimal_of (number_toString (maxAge (hsts cfg))) (maxAge (hsts cfg))"
    by (rule number_toString_decimal)
qed

text \<open>
  Five configurations on a response without headers: the default one; \<open>maxAge\<close> 0 without
  \<open>includeSubDomains\<close>, with \<open>preload\<close>; two years with both flags; HSTS disabled; and the
  default one with an illegal \<open>xFrameOptions\<close>, where the run throws after the header is
  written.
\<close>

theorem hsts_header_examples_witness:
  "normal_input (securityHeaders_config no_options) empty_response
   \<and> safe_integer (maxAge (hsts (securityHeaders_config no_options)))
   \<and> header_after (securityHeaders no_options empty_request empty_response last_handler)
         ''Strict-Transport-Security'' = Some (JStr ''max-age=31536000; includeSubDomains'')
   \<and> normal_input (securityHeaders_config zero_maxAge) empty_response
   \<and> safe_integer (maxAge (hsts (securityHeaders_config zero_maxAge)))
   \<and> header_after (securityHeaders zero_maxAge empty_request empty_response last_handler)
         ''Strict-Transport-Security'' = Some (JStr ''max-age=0; preload'')
   \<and> normal_input (securityHeaders_config two_years) empty_response
   \<and> safe_integer (maxAge (hsts (securityHeaders_config two_years)))
   \<and> header_after (securityHeaders two_years empty_request empty_response last_handler)
         ''Strict-Transport-Security''
       = Some (JStr ''max-age=63072000; includeSubDomains; preload'')
   \<and> normal_input (securityHeaders_config hsts_disabled) empty_response
   \<and> safe_integer (maxAge (hsts (securityHeaders_config hsts_disabled)))
   \<and> header_after (securityHeaders hsts_disabled empty_request empty_response last_handler)
         ''Strict-Transport-Security'' = None
   \<and> normal_input (securityHeaders_config newline_xFrameOptions) empty_response
   \<and> safe_integer (maxAge (hsts (securityHeaders_config newline_xFrameOptions)))
   \<and> header_after (securityHeaders newline_xFrameOptions empty_request empty_response
         last_handler) ''Strict-Transport-Security''
       = Some (JStr ''max-age=31536000; includeSubDomains'')"
proof -
  have n: "normal_input (securityHeaders_config no_options) empty_response"
    "normal_input (securityHeaders_config zero_maxAge) empty_response"
    "normal_input (securityHeaders_config two_years) empty_response"
    "normal_input (securityHeaders_config hsts_disabled) empty_response"
    "normal_input (securityHeaders_config newline_xFrameOptions) empty_response"
    by (simp_all add: securityHeaders_config_default example_configs normal_input_default_config)
  have s: "safe_integer (maxAge (hsts (securityHeaders_config no_options)))"
    "safe_integer (maxAge (hsts (securityHeaders_config zero_maxAge)))"
    "safe_integer (maxAge (hsts (securityHeaders_config two_years)))"
    "safe_integer (maxAge (hsts (securityHeaders_config hsts_disabled)))"
    "safe_integer (maxAge (hsts (securityHeaders_config newline_xFrameOptions)))"
    by (simp_all add: securityHeaders_config_default example_configs safe_integer_def)
  have "header_after (securityHeaders no_options empty_request empty_response last_handler)
         ''Strict-Transport-Security'' = Some (JStr ''max-age=31536000; includeSubDomains'')"
    using hsts_header_iff_enabled [OF n(1) s(1), of empty_request]
    by (simp add: securityHeaders_def securityHeaders_config_default number_toString_examples)
  moreover have "header_after (securityHeaders zero_maxAge empty_request empty_response
      last_handler) ''Strict-Transport-Security'' = Some (JStr ''max-age=0; preload'')"
    using hsts_header_iff_enabled [OF n(2) s(2), of empty_request]
    by (simp add: securityHeaders_def example_configs number_toString_examples)
  moreover have "header_after (securityHeaders two_years empty_request empty_response
      last_handler) ''Strict-Transport-Security''
       = Some (JStr ''max-age=63072000; includeSubDomains; preload'')"
    using hsts_header_iff_enabled [OF n(3) s(3), of empty_request]
    by (simp add: securityHeaders_def example_configs number_toString_examples)
  moreover have "header_after (securityHeaders hsts_disabled empty_request empty_response
      last_handler) ''Strict-Transport-Security'' = None"
    using hsts_header_iff_enabled [OF n(4) s(4), of empty_request]
    by (simp add: securityHeaders_def example_configs)
  moreover have "header_after (securityHeaders newline_xFrameOptions empty_request
      empty_response last_handler) ''Strict-Transport-Security''
       = Some (JStr ''max-age=31536000; includeSubDomains'')"
    using hsts_header_iff_enabled [OF n(5) s(5), of empty_request]
    by (simp add: securityHeaders_def example_configs number_toString_examples)
  ultimately show ?thesis
    using n s by simp
qed

text \<open>
  C3, as the specification states it, fails for a token with a control character: with
  \<open>defaultSrc: ["'self'\n"]\<close> and \<open>csp.enabled\<close> true, \<open>res.setHeader\<close> rejects the value and
  the response has no \<open>Content-Security-Policy\<close>.
\<close>

theorem csp_header_illegal_token:
  "csp_enabled (csp (securityHeaders_config newline_token))
   \<and> header_after (securityHeaders newline_token empty_request empty_response last_handler)
         ''Content-Security-Policy'' = None"
proof -
  let ?cfg = "securityHeaders_config newline_token"
  let ?v = "''default-src '' @ quoted ''self'' @ [CHR 0x0A]"
  have v: "csp_rendering (directives (csp ?cfg)) = ?v"
    by (simp add: example_configs csp_rendering_def directive_table_def render_directive_def)
  have bad: "\<not> valid_header_value ?v"
    by (simp add: valid_header_value_def valid_header_char_def)
  have "\<exists>rest. planned_writes ?cfg empty_response =
          [(''Strict-Transport-Security'', JStr (hsts_rendering (hsts ?cfg)))]
            @ (''Content-Security-Policy'', JStr ?v) # rest"
    using v by (simp add: planned_writes_def header_if_def example_configs)
  then obtain rest where planned: "planned_writes ?cfg empty_response =
          [(''Strict-Transport-Security'', JStr (hsts_rendering (hsts ?cfg)))]
            @ (''Content-Security-Policy'', JStr ?v) # rest"
    by blast
  have "try_writes ([(''Strict-Transport-Security'', JStr (hsts_rendering (hsts ?cfg)))]
            @ (''Content-Security-Policy'', JStr ?v) # rest) empty_response =
          Inl (TypeError, apply_writes
            [(''Strict-Transport-Security'', JStr (hsts_rendering (hsts ?cfg)))] empty_response)"
    by (rule try_writes_stops) (use bad in simp_all)
  then have "try_writes (planned_writes ?cfg empty_response) empty_response =
          Inl (TypeError, apply_writes
            [(''Strict-Transport-Security'', JStr (hsts_rendering (hsts ?cfg)))] empty_response)"
    by (simp only: planned)
  then have "state_of (securityHeadersMiddleware ?cfg empty_request empty_response last_handler)
      = apply_writes [(''Strict-Transport-Security'', JStr (hsts_rendering (hsts ?cfg)))]
          empty_response"
    by (simp only: securityHeadersMiddleware_state [OF normal_input_csp_examples(2)]
        state_of_simps)
  then have "header_after (securityHeaders newline_token empty_request empty_response
      last_handler) ''Content-Security-Policy'' = None"
    by (simp add: header_after_def securityHeaders_def)
  moreover have "csp_enabled (csp ?cfg)"
    by (simp add: example_configs)
  ultimately show ?thesis by simp
qed

text \<open>
  C3, amended. For every configuration of normal input with \<open>csp.enabled\<close> true whose
  directive tokens consist of characters legal in a header value, \<open>Content-Security-Policy\<close>
  is the rendering \<open>csp_rendering\<close> of the directive map: the directives of the fixed
  table that are present, each as its name, a space and its tokens separated by spaces,
  in the order of the table, then \<open>upgrade-insecure-requests\<close> when the flag is true, all
  separated by \<open>; \<close>. A directive that is absent contributes nothing. The map with
  \<open>defaultSrc: ["'self'"]\<close> alone renders as \<open>default-src 'self'\<close>.
\<close>

theorem csp_header_rendering:
  assumes "normal_input cfg res"
    and "directives_header_safe (directives (csp cfg))"
    and "csp_enabled (csp cfg)"
  shows "header_after (securityHeadersMiddleware cfg req res last_handler)
             ''Content-Security-Policy'' = Some (JStr (csp_rendering (directives (csp cfg))))
         \<and> csp_rendering (map_of [(''defaultSrc'', JArr [quoted ''self''])]) =
             ''default-src '' @ quoted ''self''"
proof
  define first where "first =
    header_if (hsts_enabled (hsts cfg)) ''Strict-Transport-Security'' (hsts_rendering (hsts cfg))
     @ header_if (csp_enabled (csp cfg)) ''Content-Security-Policy''
         (csp_rendering (directives (csp cfg)))"
  define rest where "rest =
     header_if (xFrameOptions cfg \<noteq> []) ''X-Frame-Options'' (xFrameOptions cfg)
     @ header_if (xContentTypeOptions cfg \<noteq> []) ''X-Content-Type-Options''
         (xContentTypeOptions cfg)
     @ header_if (xXssProtection cfg \<noteq> []) ''X-XSS-Protection'' (xXssProtection cfg)
     @ header_if (referrerPolicy cfg \<noteq> []) ''Referrer-Policy'' (referrerPolicy cfg)
     @ (case permissionsPolicy cfg of
          PFalsy \<Rightarrow> []
        | PObject props \<Rightarrow>
            [(''Permissions-Policy'', JStr (permissions_rendering (object_entries props)))])
     @ header_if (embedderPolicy (crossOrigin cfg) \<noteq> []) ''Cross-Origin-Embedder-Policy''
         (embedderPolicy (crossOrigin cfg))
     @ header_if (openerPolicy (crossOrigin cfg) \<noteq> []) ''Cross-Origin-Opener-Policy''
         (openerPolicy (crossOrigin cfg))
     @ header_if (resourcePolicy (crossOrigin cfg) \<noteq> []) ''Cross-Origin-Resource-Policy''
         (resourcePolicy (crossOrigin cfg))
     @ (if is_static_asset (contentType_string res) then []
        else [(''Cache-Control'', JStr (cacheControl cfg)),
              (''Pragma'', JStr ''no-cache''),
              (''Expires'', JStr ''0'')])"
  have planned: "planned_writes cfg res = first @ rest"
    by (simp add: planned_writes_def first_def rest_def)
  have legal: "list_all (\<lambda>w. valid_header_value (header_value_string (snd w))) first"
    using valid_csp_rendering [OF assms(2)] by (simp add: first_def header_if_def)
  have untouched: "list_all (\<lambda>w. lower (fst w) \<noteq> lower ''Content-Security-Policy'') rest"
    by (simp add: rest_def split: permissions.split)
  have "header_after (securityHeadersMiddleware cfg req res last_handler)
          ''Content-Security-Policy''
        = getHeader (state_of (try_writes rest (apply_writes first res)))
            ''Content-Security-Policy''"
    by (simp add: header_after_def securityHeadersMiddleware_state [OF assms(1)] planned
        state_try_writes_prefix [OF legal])
  also have "\<dots> = getHeader (apply_writes first res) ''Content-Security-Policy''"
    by (rule state_try_writes_frame [OF untouched])
  also have "\<dots> = Some (JStr (csp_rendering (directives (csp cfg))))"
    by (simp add: first_def assms(3))
  finally show "header_after (securityHeadersMiddleware cfg req res last_handler)
             ''Content-Security-Policy'' = Some (JStr (csp_rendering (directives (csp cfg))))" .
  show "csp_rendering (map_of [(''defaultSrc'', JArr [quoted ''self''])]) =
          ''default-src '' @ quoted ''self''"
    by (rule csp_rendering_defaultSrc_only)
qed

text \<open>
  The default policy, with its twelve directives, and the policy with \<open>defaultSrc\<close> alone,
  on a response without headers.
\<close>

theorem csp_header_examples_witness:
  "normal_input (securityHeaders_config no_options) empty_response
   \<and> directives_header_safe (directives (csp (securityHeaders_config no_options)))
   \<and> csp_enabled (csp (securityHeaders_config no_options))
   \<and> header_after (securityHeaders no_options empty_request empty_response last_handler)
         ''Content-Security-Policy''
       = Some (JStr ''default-src 'self'; script-src 'self' 'unsafe-inline'; style-src 'self' 'unsafe-inline' https://fonts.googleapis.com; img-src 'self' data: https:; font-src 'self' https://fonts.gstatic.com; connect-src 'self'; frame-src 'none'; object-src 'none'; base-uri 'self'; form-action 'self'; frame-ancestors 'none'; upgrade-insecure-requests'')
   \<and> normal_input (securityHeaders_config defaultSrc_only) empty_response
   \<and> directives_header_safe (directives (csp (securityHeaders_config defaultSrc_only)))
   \<and> csp_enabled (csp (securityHeaders_config defaultSrc_only))
   \<and> header_after (securityHeaders defaultSrc_only empty_request empty_response last_handler)
         ''Content-Security-Policy''
       = Some (JStr (''default-src '' @ quoted ''self''))"
proof -
  have s: "directives_header_safe (directives (csp (securityHeaders_config no_options)))"
    "directives_header_safe (directives (csp (securityHeaders_config defaultSrc_only)))"
    using header_safe_examples(1,2) by (simp_all add: header_safe_def)
  have e: "csp_enabled (csp (securityHeaders_config no_options))"
    "csp_enabled (csp (securityHeaders_config defaultSrc_only))"
    by (simp_all add: securityHeaders_config_default example_configs)
  have "header_after (securityHeaders no_options empty_request empty_response last_handler)
         ''Content-Security-Policy''
       = Some (JStr ''default-src 'self'; script-src 'self' 'unsafe-inline'; style-src 'self' 'unsafe-inline' https://fonts.googleapis.com; img-src 'self' data: https:; font-src 'self' https://fonts.gstatic.com; connect-src 'self'; frame-src 'none'; object-src 'none'; base-uri 'self'; form-action 'self'; frame-ancestors 'none'; upgrade-insecure-requests'')"
    using csp_header_rendering [OF normal_input_examples(1) s(1) e(1), of empty_request]
      csp_rendering_default
    by (simp add: securityHeaders_def securityHeaders_config_default)
  moreover have "header_after (securityHeaders defaultSrc_only empty_request empty_response
      last_handler) ''Content-Security-Policy'' = Some (JStr (''default-src '' @ quoted ''self''))"
    using csp_header_rendering [OF normal_input_csp_examples(1) s(2) e(2), of empty_request]
    by (simp add: securityHeaders_def example_configs)
  ultimately show ?thesis
    using s e normal_input_examples(1) normal_input_csp_examples(1) by simp
qed

text \<open>
  C4, as the specification states it, fails in three ways. The empty map \<open>{}\<close> is an
  object, hence truthy, and the header is written, with the empty string as its value, on
  a response that had no such header. The keys \<open>b, 2, a, 1\<close> are not rendered in input
  order: \<open>Object.entries\<close> lists the array indices first. And with the default, non-empty
  policy and an illegal \<open>xFrameOptions\<close> the run throws before the header is written.
\<close>

theorem permissions_header_counterexamples:
  "getHeader empty_response ''Permissions-Policy'' = None
   \<and> header_after (securityHeaders empty_permissions empty_request empty_response last_handler)
         ''Permissions-Policy'' = Some (JStr [])
   \<and> header_after (securityHeaders index_keys empty_request empty_response last_handler)
         ''Permissions-Policy'' = Some (JStr ''1=(), 2=(), b=(), a=()'')
   \<and> header_after (securityHeaders newline_xFrameOptions empty_request empty_response
         last_handler) ''Permissions-Policy'' = None"
proof -
  have "header_after (securityHeaders empty_permissions empty_request empty_response
      last_handler) ''Permissions-Policy'' = Some (JStr [])"
    by (simp add: securityHeaders_def header_after_def securityHeadersMiddleware_result
        [OF normal_input_permissions_examples(1) header_safe_examples(3)] planned_permissions)
       (simp add: example_configs object_entries_examples permissions_rendering_def)
  moreover have "header_after (securityHeaders index_keys empty_request empty_response
      last_handler) ''Permissions-Policy'' = Some (JStr ''1=(), 2=(), b=(), a=()'')"
    by (simp add: securityHeaders_def header_after_def securityHeadersMiddleware_result
        [OF normal_input_permissions_examples(4) header_safe_examples(6)] planned_permissions)
       (simp add: example_configs object_entries_examples permissions_rendering_def
          render_permission_def)
  moreover have "header_after (securityHeaders newline_xFrameOptions empty_request
      empty_response last_handler) ''Permissions-Policy'' = None"
    by (simp add: newline_xFrameOptions_stops header_after_def)
  ultimately show ?thesis by simp
qed

text \<open>
  C4, amended. For every configuration of normal input whose values are legal header
  values, the middleware writes \<open>Permissions-Policy\<close> whenever the configured policy is an
  object, with or without entries; the value is the list of
  \<open><feature>=(<origins separated by spaces>)\<close> in the order of \<open>Object.entries\<close>, separated
  by a comma and a space, so a feature without origins renders as \<open><feature>=()\<close> and the
  empty object as the empty string. When no key is an array index (and no key is given
  twice), the order of \<open>Object.entries\<close> is the input order. The header is left as it was
  only when the configured policy is a falsy value.
\<close>

theorem permissions_header_rendering:
  assumes "normal_input cfg res" and "header_safe cfg"
  shows "(\<exists>res'. securityHeadersMiddleware cfg req res last_handler = Inr res'
           \<and> getHeader res' ''Permissions-Policy'' =
               (case permissionsPolicy cfg of
                  PFalsy \<Rightarrow> getHeader res ''Permissions-Policy''
                | PObject props \<Rightarrow>
                    Some (JStr (separated '', ''
                      (map (\<lambda>e. fst e @ ''=('' @ separated '' '' (origins_of (snd e)) @ '')'')
                        (object_entries props))))))
         \<and> (distinct (map fst (ps :: (string \<times> jsval) list))
               \<and> list_all (\<lambda>p. \<not> is_array_index (fst p)) ps
             \<longrightarrow> object_entries ps = ps)"
proof (intro conjI exI impI)
  show "securityHeadersMiddleware cfg req res last_handler =
          Inr (apply_writes (planned_writes cfg res) res)"
    by (rule securityHeadersMiddleware_result [OF assms])
  show "getHeader (apply_writes (planned_writes cfg res) res) ''Permissions-Policy'' =
               (case permissionsPolicy cfg of
                  PFalsy \<Rightarrow> getHeader res ''Permissions-Policy''
                | PObject props \<Rightarrow>
                    Some (JStr (separated '', ''
                      (map (\<lambda>e. fst e @ ''=('' @ separated '' '' (origins_of (snd e)) @ '')'')
                        (object_entries props)))))"
  proof -
    have "render_permission = (\<lambda>e. fst e @ ''=('' @ separated '' '' (origins_of (snd e)) @ '')'')"
      by (rule ext) (simp add: render_permission_def)
    then show ?thesis
      by (simp add: planned_permissions permissions_rendering_def split: permissions.split)
  qed
  show "object_entries ps = ps"
    if "distinct (map fst ps) \<and> list_all (\<lambda>p. \<not> is_array_index (fst p)) ps"
    using that by (simp add: object_entries_input_order)
qed

text \<open>
  \<open>{ camera: [], geolocation: ["'self'"] }\<close> renders as \<open>camera=(), geolocation=('self')\<close>,
  and a policy of four features, one of them with two origins, in the order written.
  \<open>{ usb: ["'self'"], 10: [], 9: [] }\<close> renders as \<open>9=(), 10=(), usb=('self')\<close>.
\<close>

theorem permissions_header_examples_witness:
  "normal_input (securityHeaders_config camera_geolocation) empty_response
   \<and> header_safe (securityHeaders_config camera_geolocation)
   \<and> header_after (securityHeaders camera_geolocation empty_request empty_response last_handler)
         ''Permissions-Policy'' = Some (JStr ''camera=(), geolocation=('self')'')
   \<and> normal_input (securityHeaders_config four_features) empty_response
   \<and> header_safe (securityHeaders_config four_features)
   \<and> header_after (securityHeaders four_features empty_request empty_response last_handler)
         ''Permissions-Policy''
       = Some (JStr ''camera=(), geolocation=('self' https://maps.example.com), microphone=(), usb=('self')'')
   \<and> normal_input (securityHeaders_config numeric_keys) empty_response
   \<and> header_safe (securityHeaders_config numeric_keys)
   \<and> header_after (securityHeaders numeric_keys empty_request empty_response last_handler)
         ''Permissions-Policy'' = Some (JStr ''9=(), 10=(), usb=('self')'')
   \<and> distinct (map fst [(''camera'', JArr []), (''geolocation'', JArr [quoted ''self''])])
   \<and> list_all (\<lambda>p. \<not> is_array_index (fst p))
         [(''camera'', JArr []), (''geolocation'', JArr [quoted ''self''])]
   \<and> object_entries [(''camera'', JArr []), (''geolocation'', JArr [quoted ''self''])] =
         [(''camera'', JArr []), (''geolocation'', JArr [quoted ''self''])]"
proof -
  have keys: "distinct (map fst [(''camera'', JArr []), (''geolocation'', JArr [quoted ''self''])])"
    "list_all (\<lambda>p. \<not> is_array_index (fst p))
         [(''camera'', JArr []), (''geolocation'', JArr [quoted ''self''])]"
    by (simp_all add: is_array_index_def canonical_digits_def is_digit_def)
  have "distinct (map fst [(''camera'', JArr []), (''geolocation'', JArr [quoted ''self''])])
      \<and> list_all (\<lambda>p. \<not> is_array_index (fst p))
         [(''camera'', JArr []), (''geolocation'', JArr [quoted ''self''])]
    \<longrightarrow> object_entries [(''camera'', JArr []), (''geolocation'', JArr [quoted ''self''])] =
         [(''camera'', JArr []), (''geolocation'', JArr [quoted ''self''])]"
    by (rule conjunct2 [OF permissions_header_rendering
          [OF normal_input_permissions_examples(2) header_safe_examples(4),
            where ps = "[(''camera'', JArr []), (''geolocation'', JArr [quoted ''self''])]"]])
  with keys have order:
    "object_entries [(''camera'', JArr []), (''geolocation'', JArr [quoted ''self''])] =
         [(''camera'', JArr []), (''geolocation'', JArr [quoted ''self''])]"
    by blast
  obtain r3 where r3:
    "securityHeadersMiddleware (securityHeaders_config numeric_keys) empty_request
       empty_response last_handler = Inr r3"
    "getHeader r3 ''Permissions-Policy'' =
       (case permissionsPolicy (securityHeaders_config numeric_keys) of
          PFalsy \<Rightarrow> getHeader empty_response ''Permissions-Policy''
        | PObject props \<Rightarrow>
            Some (JStr (separated '', ''
              (map (\<lambda>e. fst e @ ''=('' @ separated '' '' (origins_of (snd e)) @ '')'')
                (object_entries props)))))"
    using permissions_header_rendering
      [OF normal_input_permissions_examples(5) header_safe_examples(7), of empty_request]
    by blast
  have n3: "header_after (securityHeaders numeric_keys empty_request empty_response
      last_handler) ''Permissions-Policy'' = Some (JStr ''9=(), 10=(), usb=('self')'')"
    using r3 by (simp add: header_after_def securityHeaders_def)
      (simp add: example_configs object_entries_def own_properties_def is_array_index_def
        canonical_digits_def is_digit_def parse_nat_def)
  obtain r1 where r1:
    "securityHeadersMiddleware (securityHeaders_config camera_geolocation) empty_request
       empty_response last_handler = Inr r1"
    "getHeader r1 ''Permissions-Policy'' =
       (case permissionsPolicy (securityHeaders_config camera_geolocation) of
          PFalsy \<Rightarrow> getHeader empty_response ''Permissions-Policy''
        | PObject props \<Rightarrow>
            Some (JStr (separated '', ''
              (map (\<lambda>e. fst e @ ''=('' @ separated '' '' (origins_of (snd e)) @ '')'')
                (object_entries props)))))"
    using permissions_header_rendering
      [OF normal_input_permissions_examples(2) header_safe_examples(4), of empty_request]
    by blast
  obtain r2 where r2:
    "securityHeadersMiddleware (securityHeaders_config four_features) empty_request
       empty_response last_handler = Inr r2"
    "getHeader r2 ''Permissions-Policy'' =
       (case permissionsPolicy (securityHeaders_config four_features) of
          PFalsy \<Rightarrow> getHeader empty_response ''Permissions-Policy''
        | PObject props \<Rightarrow>
            Some (JStr (separated '', ''
              (map (\<lambda>e. fst e @ ''=('' @ separated '' '' (origins_of (snd e)) @ '')'')
                (object_entries props)))))"
    using permissions_header_rendering
      [OF normal_input_permissions_examples(3) header_safe_examples(5), of empty_request]
    by blast
  have "header_after (securityHeaders camera_geolocation empty_request empty_response
      last_handler) ''Permissions-Policy'' = Some (JStr ''camera=(), geolocation=('self')'')"
    using r1 by (simp add: header_after_def securityHeaders_def)
      (simp add: example_configs object_entries_def own_properties_def is_array_index_def
        canonical_digits_def is_digit_def)
  moreover have "header_after (securityHeaders four_features empty_request empty_response
      last_handler) ''Permissions-Policy''
       = Some (JStr ''camera=(), geolocation=('self' https://maps.example.com), microphone=(), usb=('self')'')"
    using r2 by (simp add: header_after_def securityHeaders_def)
      (simp add: example_configs object_entries_def own_properties_def is_array_index_def
        canonical_digits_def is_digit_def)
  ultimately show ?thesis
    using n3 keys order normal_input_permissions_examples(2,3,5) header_safe_examples(4,5,7)
    by blast
qed

text \<open>
  C5, as the specification states it, fails for a configuration with an illegal value:
  with \<open>xContentTypeOptions: 'nosniff\n'\<close> on a response of type \<open>text/html\<close>, which
  contains none of the four words, the run throws at \<open>X-Content-Type-Options\<close> and no
  \<open>Cache-Control\<close>, \<open>Pragma\<close> or \<open>Expires\<close> is written.
\<close>

theorem cache_headers_illegal_value:
  "normal_input (securityHeaders_config newline_nosniff) html_response
   \<and> contentType_string html_response = ''text/html''
   \<and> \<not> is_static_asset ''text/html''
   \<and> header_after (securityHeaders newline_nosniff empty_request html_response last_handler)
         ''Cache-Control'' = None
   \<and> header_after (securityHeaders newline_nosniff empty_request html_response last_handler)
         ''Pragma'' = None
   \<and> header_after (securityHeaders newline_nosniff empty_request html_response last_handler)
         ''Expires'' = None"
  by (simp add: normal_input_examples contentType_string_examples is_static_asset_examples
      newline_nosniff_stops header_after_def getHeader_html_response)

text \<open>
  C5, amended. For every configuration and response of normal input in which every
  configured value is a legal header value, the middleware writes \<open>Cache-Control\<close> with
  the configured value, \<open>Pragma: no-cache\<close> and \<open>Expires: 0\<close> if and only if the content type
  already on the response, the empty string when there is none, contains none of
  \<open>image\<close>, \<open>font\<close>, \<open>css\<close>, \<open>javascript\<close>; otherwise the three headers are left as they
  were. By \<open>is_static_asset_iff\<close>, \<open>is_static_asset ct\<close> says that \<open>ct\<close> is \<open>p @ w @ q\<close> for
  one of the four words \<open>w\<close>.
\<close>

theorem cache_headers_iff_dynamic:
  assumes "normal_input cfg res" and "header_safe cfg"
  shows "\<exists>res'. securityHeadersMiddleware cfg req res last_handler = Inr res'
           \<and> (if is_static_asset (contentType_string res)
               then getHeader res' ''Cache-Control'' = getHeader res ''Cache-Control''
                 \<and> getHeader res' ''Pragma'' = getHeader res ''Pragma''
                 \<and> getHeader res' ''Expires'' = getHeader res ''Expires''
               else getHeader res' ''Cache-Control'' = Some (JStr (cacheControl cfg))
                 \<and> getHeader res' ''Pragma'' = Some (JStr ''no-cache'')
                 \<and> getHeader res' ''Expires'' = Some (JStr ''0''))"
proof (intro exI conjI)
  show "securityHeadersMiddleware cfg req res last_handler =
          Inr (apply_writes (planned_writes cfg res) res)"
    by (rule securityHeadersMiddleware_result [OF assms])
  show "if is_static_asset (contentType_string res)
        then getHeader (apply_writes (planned_writes cfg res) res) ''Cache-Control''
               = getHeader res ''Cache-Control''
          \<and> getHeader (apply_writes (planned_writes cfg res) res) ''Pragma''
               = getHeader res ''Pragma''
          \<and> getHeader (apply_writes (planned_writes cfg res) res) ''Expires''
               = getHeader res ''Expires''
        else getHeader (apply_writes (planned_writes cfg res) res) ''Cache-Control''
               = Some (JStr (cacheControl cfg))
          \<and> getHeader (apply_writes (planned_writes cfg res) res) ''Pragma''
               = Some (JStr ''no-cache'')
          \<and> getHeader (apply_writes (planned_writes cfg res) res) ''Expires''
               = Some (JStr ''0'')"
    by (simp add: planned_cache)
qed

text \<open>
  With the default configuration: on a response of type \<open>image/png\<close> none of the three
  headers appears; on a response of type \<open>text/html\<close>, and on one without a content
  type, all three are written.
\<close>

theorem cache_headers_examples_witness:
  "normal_input (securityHeaders_config no_options) png_response
   \<and> header_safe (securityHeaders_config no_options)
   \<and> header_after (securityHeaders no_options empty_request png_response last_handler)
         ''Cache-Control'' = None
   \<and> header_after (securityHeaders no_options empty_request png_response last_handler)
         ''Pragma'' = None
   \<and> header_after (securityHeaders no_options empty_request png_response last_handler)
         ''Expires'' = None
   \<and> normal_input (securityHeaders_config no_options) html_response
   \<and> header_after (securityHeaders no_options empty_request html_response last_handler)
         ''Cache-Control'' = Some (JStr ''no-store, no-cache, must-revalidate, proxy-revalidate'')
   \<and> header_after (securityHeaders no_options empty_request html_response last_handler)
         ''Pragma'' = Some (JStr ''no-cache'')
   \<and> header_after (securityHeaders no_options empty_request html_response last_handler)
         ''Expires'' = Some (JStr ''0'')
   \<and> normal_input (securityHeaders_config no_options) empty_response
   \<and> header_after (securityHeaders no_options empty_request empty_response last_handler)
         ''Cache-Control'' = Some (JStr ''no-store, no-cache, must-revalidate, proxy-revalidate'')
   \<and> header_after (securityHeaders no_options empty_request empty_response last_handler)
         ''Pragma'' = Some (JStr ''no-cache'')
   \<and> header_after (securityHeaders no_options empty_request empty_response last_handler)
         ''Expires'' = Some (JStr ''0'')"
proof -
  have png:
    "header_after (securityHeaders no_options empty_request png_response last_handler)
       ''Cache-Control'' = None
     \<and> header_after (securityHeaders no_options empty_request png_response last_handler)
         ''Pragma'' = None
     \<and> header_after (securityHeaders no_options empty_request png_response last_handler)
         ''Expires'' = None"
    using cache_headers_iff_dynamic
      [OF normal_input_examples(2) header_safe_examples(1), of empty_request]
    by (auto simp: header_after_def securityHeaders_def contentType_string_examples
        is_static_asset_examples getHeader_png_response)
  have html:
    "header_after (securityHeaders no_options empty_request html_response last_handler)
       ''Cache-Control'' = Some (JStr ''no-store, no-cache, must-revalidate, proxy-revalidate'')
     \<and> header_after (securityHeaders no_options empty_request html_response last_handler)
         ''Pragma'' = Some (JStr ''no-cache'')
     \<and> header_after (securityHeaders no_options empty_request html_response last_handler)
         ''Expires'' = Some (JStr ''0'')"
    using cache_headers_iff_dynamic
      [OF normal_input_examples(3) header_safe_examples(1), of empty_request]
    by (auto simp: header_after_def securityHeaders_def contentType_string_examples
        is_static_asset_examples securityHeaders_config_default)
  have none:
    "header_after (securityHeaders no_options empty_request empty_response last_handler)
       ''Cache-Control'' = Some (JStr ''no-store, no-cache, must-revalidate, proxy-revalidate'')
     \<and> header_after (securityHeaders no_options empty_request empty_response last_handler)
         ''Pragma'' = Some (JStr ''no-cache'')
     \<and> header_after (securityHeaders no_options empty_request empty_response last_handler)
         ''Expires'' = Some (JStr ''0'')"
    using cache_headers_iff_dynamic
      [OF normal_input_examples(1) header_safe_examples(1), of empty_request]
    by (auto simp: header_after_def securityHeaders_def contentType_string_examples
        is_static_asset_examples securityHeaders_config_default)
  show ?thesis
    using png html none normal_input_examples(1,2,3) header_safe_examples(1) by blast
qed

text \<open>
  C6. On normal input with legal header values a second run of the middleware, with the
  same configuration, on the response left by the first run gives back that very
  response: every header is overwritten with the value it already has. Installing the
  middleware twice in a row is the same as installing it once.
\<close>

theorem securityHeadersMiddleware_idempotent:
  assumes "normal_input cfg res" and "header_safe cfg"
  shows "\<exists>res'. securityHeadersMiddleware cfg req res last_handler = Inr res'
           \<and> securityHeadersMiddleware cfg req res' last_handler = Inr res'
           \<and> securityHeadersMiddleware cfg req res
                 (\<lambda>r. securityHeadersMiddleware cfg req r last_handler) = Inr res'"
proof (intro exI conjI)
  let ?r = "apply_writes (planned_writes cfg res) res"
  show once: "securityHeadersMiddleware cfg req res last_handler = Inr ?r"
    by (rule securityHeadersMiddleware_result [OF assms])
  show again: "securityHeadersMiddleware cfg req ?r last_handler = Inr ?r"
    by (simp add: securityHeadersMiddleware_result [OF normal_input_after(1) [OF assms(1)] assms(2)]
        normal_input_after(2) [OF assms(1)] apply_writes_idem)
  show "securityHeadersMiddleware cfg req res
          (\<lambda>r. securityHeadersMiddleware cfg req r last_handler) = Inr ?r"
    by (simp add: securityHeadersMiddleware_normal [OF assms] again)
qed

text \<open>The default configuration, installed twice, on a response of type \<open>text/html\<close>.\<close>

theorem securityHeadersMiddleware_idempotent_witness:
  "normal_input (securityHeaders_config no_options) html_response
   \<and> header_safe (securityHeaders_config no_options)
   \<and> securityHeaders no_options empty_request html_response
         (\<lambda>r. securityHeaders no_options empty_request r last_handler)
       = securityHeaders no_options empty_request html_response last_handler
   \<and> header_after (securityHeaders no_options empty_request html_response
         (\<lambda>r. securityHeaders no_options empty_request r last_handler)) ''X-Frame-Options''
       = Some (JStr ''DENY'')"
proof -
  obtain res' where r:
    "securityHeadersMiddleware (securityHeaders_config no_options) empty_request html_response
       last_handler = Inr res'"
    "securityHeadersMiddleware (securityHeaders_config no_options) empty_request html_response
       (\<lambda>r. securityHeadersMiddleware (securityHeaders_config no_options) empty_request r
          last_handler) = Inr res'"
    using securityHeadersMiddleware_idempotent
      [OF normal_input_examples(3) header_safe_examples(1), of empty_request]
    by blast
  have "res' = apply_writes (planned_writes (securityHeaders_config no_options) html_response)
                 html_response"
    using r(1) securityHeadersMiddleware_result
      [OF normal_input_examples(3) header_safe_examples(1), of empty_request]
    by simp
  then have "getHeader res' ''X-Frame-Options'' = Some (JStr ''DENY'')"
    by (simp add: planned_plain securityHeaders_config_default)
  then show ?thesis
    using r by (simp add: normal_input_examples header_safe_examples header_after_def
        securityHeaders_def)
qed

text \<open>
  C8, as the specification states it, fails: \<open>{ xFrameOptions: 'DENY\n' }\<close> satisfies the
  precondition of the claim (the directive and origin values are lists of strings, the
  header values are strings), and \<open>res.setHeader\<close> throws at \<open>X-Frame-Options\<close>. The next
  handler is never called: a handler that counts its calls has counted none. 
\<close>

theorem securityHeadersMiddleware_throws_on_illegal_value:
  "normal_input (securityHeaders_config newline_xFrameOptions) empty_response
   \<and> threw (securityHeaders newline_xFrameOptions empty_request empty_response last_handler)
   \<and> threw (securityHeaders newline_xFrameOptions empty_request empty_response counting_handler)
   \<and> handler_calls (state_of (securityHeaders newline_xFrameOptions empty_request
         empty_response counting_handler)) = 0"
  by (simp add: normal_input_examples newline_xFrameOptions_stops handler_calls_def)

text \<open>
  C8, amended. On normal input in which every configured value is a legal header value,
  the middleware does not throw and does not end the request: for every rest of the chain
  \<open>nxt\<close>, its result is the result of \<open>nxt\<close> on the response that carries all the planned
  writes. The rest of the chain runs exactly once: a next handler that counts its calls
  has, after the run, counted one call more than before. (Outside normal input the
  middleware can throw as well: \<open>string_directive_throws\<close>.)
\<close>

theorem securityHeadersMiddleware_calls_next:
  assumes "normal_input cfg res" and "header_safe cfg"
  shows "securityHeadersMiddleware cfg req res nxt =
           nxt (apply_writes (planned_writes cfg res) res)
         \<and> \<not> threw (securityHeadersMiddleware cfg req res counting_handler)
         \<and> handler_calls (state_of (securityHeadersMiddleware cfg req res counting_handler))
             = handler_calls res + 1"
proof (intro conjI)
  show "securityHeadersMiddleware cfg req res nxt =
           nxt (apply_writes (planned_writes cfg res) res)"
    by (rule securityHeadersMiddleware_normal [OF assms])
  have run: "securityHeadersMiddleware cfg req res counting_handler =
           counting_handler (apply_writes (planned_writes cfg res) res)"
    by (rule securityHeadersMiddleware_normal [OF assms])
  show "\<not> threw (securityHeadersMiddleware cfg req res counting_handler)"
    by (simp add: run counting_handler_def)
  have "handler_calls (apply_writes (planned_writes cfg res) res) = handler_calls res"
    by (simp add: handler_calls_def planned_handler_calls)
  then show "handler_calls (state_of (securityHeadersMiddleware cfg req res counting_handler))
             = handler_calls res + 1"
    by (simp add: run handler_calls_counting_handler)
qed

text \<open>
  The default configuration on a response without headers: the next handler runs, once,
  and sees \<open>X-Frame-Options: DENY\<close>.
\<close>

theorem securityHeadersMiddleware_calls_next_witness:
  "normal_input (securityHeaders_config no_options) empty_response
   \<and> header_safe (securityHeaders_config no_options)
   \<and> securityHeaders no_options empty_request empty_response
         (\<lambda>r. Inr (getHeader r ''X-Frame-Options'')) = Inr (Some (JStr ''DENY''))
   \<and> handler_calls empty_response = 0
   \<and> handler_calls (state_of (securityHeaders no_options empty_request empty_response
         counting_handler)) = 1"
proof -
  have "securityHeaders no_options empty_request empty_response
         (\<lambda>r. Inr (getHeader r ''X-Frame-Options'')) = Inr (Some (JStr ''DENY''))"
    using securityHeadersMiddleware_calls_next
      [OF normal_input_examples(1) header_safe_examples(1),
        of empty_request "\<lambda>r. Inr (getHeader r ''X-Frame-Options'')"]
    by (simp add: securityHeaders_def planned_plain securityHeaders_config_default)
  moreover have "handler_calls (state_of (securityHeaders no_options empty_request
      empty_response counting_handler)) = handler_calls empty_response + 1"
    using securityHeadersMiddleware_calls_next
      [OF normal_input_examples(1) header_safe_examples(1), of empty_request last_handler]
    by (simp add: securityHeaders_def)
  moreover have "handler_calls empty_response = 0"
    by (simp add: handler_calls_def)
  ultimately show ?thesis
    using normal_input_examples(1) header_safe_examples(1) by simp
qed

text \<open>
  C10. The middleware never reads the request: for the same configuration, the same
  response and the same rest of the chain, two runs on any two requests give the same
  result, be it a response or an exception.
\<close>

theorem securityHeadersMiddleware_ignores_request:
  "securityHeadersMiddleware cfg req1 res nxt = securityHeadersMiddleware cfg req2 res nxt"
  by (simp add: securityHeadersMiddleware_def)

section \<open>The rate-limit annotator\<close>

text \<open>
  C7. For every options object and every response, \<open>rateLimitHeaders\<close> hands to the next
  handler a response on which \<open>X-RateLimit-Limit\<close> is the limit the caller gave, 100 when
  the caller gave none, \<open>X-RateLimit-Window\<close> is the window the caller gave, 60 when the
  caller gave none, and \<open>CF-Cache-Status\<close> is \<open>DYNAMIC\<close>; \<open>X-RateLimit-Remaining\<close> is the
  remaining count when the caller supplied one, and is left as it was when the caller
  supplied none. The numbers are written as numbers.
\<close>

theorem rateLimitHeaders_emits:
  "\<exists>res'. (\<forall>nxt. rateLimitHeaders opts req res nxt = nxt res')
     \<and> getHeader res' ''X-RateLimit-Limit'' =
         Some (JNum (case limit_opt opts of None \<Rightarrow> 100 | Some n \<Rightarrow> n))
     \<and> getHeader res' ''X-RateLimit-Window'' =
         Some (JNum (case window_opt opts of None \<Rightarrow> 60 | Some n \<Rightarrow> n))
     \<and> getHeader res' ''CF-Cache-Status'' = Some (JStr ''DYNAMIC'')
     \<and> getHeader res' ''X-RateLimit-Remaining'' =
         (case remaining_opt opts of
            None \<Rightarrow> getHeader res ''X-RateLimit-Remaining''
          | Some r \<Rightarrow> Some (JNum r))"
proof -
  let ?l = "case limit_opt opts of None \<Rightarrow> 100 | Some n \<Rightarrow> n"
  let ?w = "case window_opt opts of None \<Rightarrow> 60 | Some n \<Rightarrow> n"
  let ?r2 = "put_header ''X-RateLimit-Window'' (JNum ?w)
               (put_header ''X-RateLimit-Limit'' (JNum ?l) res)"
  have dynamic: "setHeader ''CF-Cache-Status'' (JStr ''DYNAMIC'') r =
      Inr (put_header ''CF-Cache-Status'' (JStr ''DYNAMIC'') r)" for r
    by (simp add: setHeader_JStr valid_header_value_def valid_header_char_def)
  have cfg: "limit (rateLimitHeaders_config opts) = ?l"
    "window (rateLimitHeaders_config opts) = ?w"
    "remaining (rateLimitHeaders_config opts) = remaining_opt opts"
    by (simp_all add: rateLimitHeaders_config_def nullish_def split: option.split)
  show ?thesis
  proof (cases "remaining_opt opts")
    case None
    show ?thesis
      by (rule exI [where x = "put_header ''CF-Cache-Status'' (JStr ''DYNAMIC'') ?r2"])
         (simp add: None rateLimitHeaders_def rateLimitHeadersMiddleware_def cfg dynamic)
  next
    case (Some r)
    show ?thesis
      by (rule exI [where x = "put_header ''CF-Cache-Status'' (JStr ''DYNAMIC'')
            (put_header ''X-RateLimit-Remaining'' (JNum r) ?r2)"])
         (simp add: Some rateLimitHeaders_def rateLimitHeadersMiddleware_def cfg dynamic)
  qed
qed

text \<open>
  \<open>rateLimitHeaders({ limit: 250, window: 30, remaining: 0 })\<close> writes 250, 30 and 0;
  \<open>rateLimitHeaders()\<close> writes 100 and 60 and no \<open>X-RateLimit-Remaining\<close>.
\<close>

theorem rateLimitHeaders_examples_witness:
  "header_after (rateLimitHeaders rateLimit_example empty_request empty_response last_handler)
       ''X-RateLimit-Limit'' = Some (JNum 250)
   \<and> header_after (rateLimitHeaders rateLimit_example empty_request empty_response last_handler)
       ''X-RateLimit-Window'' = Some (JNum 30)
   \<and> header_after (rateLimitHeaders rateLimit_example empty_request empty_response last_handler)
       ''X-RateLimit-Remaining'' = Some (JNum 0)
   \<and> header_after (rateLimitHeaders rateLimit_example empty_request empty_response last_handler)
       ''CF-Cache-Status'' = Some (JStr ''DYNAMIC'')
   \<and> header_after (rateLimitHeaders no_rateLimit_options empty_request empty_response
       last_handler) ''X-RateLimit-Limit'' = Some (JNum 100)
   \<and> header_after (rateLimitHeaders no_rateLimit_options empty_request empty_response
       last_handler) ''X-RateLimit-Window'' = Some (JNum 60)
   \<and> header_after (rateLimitHeaders no_rateLimit_options empty_request empty_response
       last_handler) ''X-RateLimit-Remaining'' = None
   \<and> header_after (rateLimitHeaders no_rateLimit_options empty_request empty_response
       last_handler) ''CF-Cache-Status'' = Some (JStr ''DYNAMIC'')"
proof -
  obtain r1 where r1:
    "\<forall>nxt :: response \<Rightarrow> thrown + response.
       rateLimitHeaders rateLimit_example empty_request empty_response nxt = nxt r1"
    "getHeader r1 ''X-RateLimit-Limit'' =
       Some (JNum (case limit_opt rateLimit_example of None \<Rightarrow> 100 | Some n \<Rightarrow> n))"
    "getHeader r1 ''X-RateLimit-Window'' =
       Some (JNum (case window_opt rateLimit_example of None \<Rightarrow> 60 | Some n \<Rightarrow> n))"
    "getHeader r1 ''CF-Cache-Status'' = Some (JStr ''DYNAMIC'')"
    "getHeader r1 ''X-RateLimit-Remaining'' =
       (case remaining_opt rateLimit_example of
          None \<Rightarrow> getHeader empty_response ''X-RateLimit-Remaining''
        | Some r \<Rightarrow> Some (JNum r))"
    using rateLimitHeaders_emits [of rateLimit_example empty_request empty_response]
    by blast
  obtain r2 where r2:
    "\<forall>nxt :: response \<Rightarrow> thrown + response.
       rateLimitHeaders no_rateLimit_options empty_request empty_response nxt = nxt r2"
    "getHeader r2 ''X-RateLimit-Limit'' =
       Some (JNum (case limit_opt no_rateLimit_options of None \<Rightarrow> 100 | Some n \<Rightarrow> n))"
    "getHeader r2 ''X-RateLimit-Window'' =
       Some (JNum (case window_opt no_rateLimit_options of None \<Rightarrow> 60 | Some n \<Rightarrow> n))"
    "getHeader r2 ''CF-Cache-Status'' = Some (JStr ''DYNAMIC'')"
    "getHeader r2 ''X-RateLimit-Remaining'' =
       (case remaining_opt no_rateLimit_options of
          None \<Rightarrow> getHeader empty_response ''X-RateLimit-Remaining''
        | Some r \<Rightarrow> Some (JNum r))"
    using rateLimitHeaders_emits [of no_rateLimit_options empty_request empty_response]
    by blast
  have "rateLimitHeaders rateLimit_example empty_request empty_response last_handler = Inr r1"
    using r1(1) by (simp add: last_handler_def)
  moreover have
    "rateLimitHeaders no_rateLimit_options empty_request empty_response last_handler = Inr r2"
    using r2(1) by (simp add: last_handler_def)
  ultimately show ?thesis
    using r1(2-5) r2(2-5)
    by (simp add: header_after_def rateLimit_example_def no_rateLimit_options_def)
qed

section \<open>The Hono adapter and the Express middleware\<close>

text \<open>
  C9, as the specification states it, fails. With no options, on a response without
  headers, the Express middleware writes \<open>Content-Security-Policy\<close> and the Hono adapter
  does not. With \<open>{ xFrameOptions: ' DENY ' }\<close> the Express middleware writes the value as
  it is and the \<open>Headers\<close> object of the Hono adapter removes the spaces around it.
\<close>

theorem securityHeadersHono_omits_csp:
  "header_after (securityHeaders no_options empty_request empty_response last_handler)
       ''Content-Security-Policy'' = Some (JStr (csp_rendering default_directives))
   \<and> header_after (securityHeadersHono no_options empty_response last_handler)
         ''Content-Security-Policy'' = None
   \<and> header_after (securityHeaders padded_xFrameOptions empty_request empty_response
         last_handler) ''X-Frame-Options'' = Some (JStr '' DENY '')
   \<and> header_after (securityHeadersHono padded_xFrameOptions empty_response last_handler)
         ''X-Frame-Options'' = Some (JStr ''DENY'')"
proof (intro conjI)
  show "header_after (securityHeaders no_options empty_request empty_response last_handler)
       ''Content-Security-Policy'' = Some (JStr (csp_rendering default_directives))"
    by (simp add: securityHeaders_def header_after_def planned_csp
        securityHeadersMiddleware_result [OF normal_input_examples(1) header_safe_examples(1)])
       (simp add: securityHeaders_config_default)
  show "header_after (securityHeadersHono no_options empty_response last_handler)
         ''Content-Security-Policy'' = None"
    by (simp add: header_after_def securityHeadersHono_result securityHeaders_config_default
        valid_default_strings header_if_def)
  show "header_after (securityHeaders padded_xFrameOptions empty_request empty_response
         last_handler) ''X-Frame-Options'' = Some (JStr '' DENY '')"
    by (simp add: securityHeaders_def header_after_def planned_plain
        securityHeadersMiddleware_result [OF normal_input_examples(6) header_safe_padded(1)])
       (simp add: example_configs)
  have "valid_header_value (xFrameOptions (securityHeaders_config padded_xFrameOptions))"
    "valid_header_value (xContentTypeOptions (securityHeaders_config padded_xFrameOptions))"
    "valid_header_value (referrerPolicy (securityHeaders_config padded_xFrameOptions))"
    using header_safe_padded(1) by (simp_all add: header_safe_def)
  then show "header_after (securityHeadersHono padded_xFrameOptions empty_response last_handler)
         ''X-Frame-Options'' = Some (JStr ''DENY'')"
    by (simp add: header_after_def securityHeadersHono_result)
       (simp add: example_configs strip_whitespace_def http_whitespace_def)
qed

text \<open>
  C9, amended. The Hono adapter implements part of the header policy. For every options
  object and every response, on normal input with legal header values, neither the
  Express middleware nor the adapter throws; the \<open>Strict-Transport-Security\<close> of the
  adapter is the one of the Express middleware; the adapter always writes
  \<open>X-Frame-Options\<close>, \<open>X-Content-Type-Options\<close> and \<open>Referrer-Policy\<close>, with the configured
  value without the HTTP whitespace around it, so these three are those of the Express
  middleware whenever the configured value is not the empty string and has no whitespace
  at either end; and the adapter writes no other header: every other header is left as
  it was on the response.
\<close>

theorem securityHeadersHono_partial_agreement:
  assumes "normal_input (securityHeaders_config opts) res"
    and "header_safe (securityHeaders_config opts)"
  shows "\<exists>re rh. securityHeaders opts req res last_handler = Inr re
           \<and> securityHeadersHono opts res last_handler = Inr rh
           \<and> getHeader rh ''Strict-Transport-Security'' = getHeader re ''Strict-Transport-Security''
           \<and> getHeader rh ''X-Frame-Options'' =
               Some (JStr (strip_whitespace (xFrameOptions (securityHeaders_config opts))))
           \<and> getHeader rh ''X-Content-Type-Options'' =
               Some (JStr (strip_whitespace (xContentTypeOptions (securityHeaders_config opts))))
           \<and> getHeader rh ''Referrer-Policy'' =
               Some (JStr (strip_whitespace (referrerPolicy (securityHeaders_config opts))))
           \<and> (xFrameOptions (securityHeaders_config opts) \<noteq> []
                \<and> strip_whitespace (xFrameOptions (securityHeaders_config opts))
                    = xFrameOptions (securityHeaders_config opts) \<longrightarrow>
                 getHeader rh ''X-Frame-Options'' = getHeader re ''X-Frame-Options'')
           \<and> (xContentTypeOptions (securityHeaders_config opts) \<noteq> []
                \<and> strip_whitespace (xContentTypeOptions (securityHeaders_config opts))
                    = xContentTypeOptions (securityHeaders_config opts) \<longrightarrow>
                 getHeader rh ''X-Content-Type-Options'' = getHeader re ''X-Content-Type-Options'')
           \<and> (referrerPolicy (securityHeaders_config opts) \<noteq> []
                \<and> strip_whitespace (referrerPolicy (securityHeaders_config opts))
                    = referrerPolicy (securityHeaders_config opts) \<longrightarrow>
                 getHeader rh ''Referrer-Policy'' = getHeader re ''Referrer-Policy'')
           \<and> (\<forall>h. lower h \<notin> {''strict-transport-security'', ''x-frame-options'',
                        ''x-content-type-options'', ''referrer-policy''} \<longrightarrow>
                 getHeader rh h = getHeader res h)"
proof -
  let ?cfg = "securityHeaders_config opts"
  let ?re = "apply_writes (planned_writes ?cfg res) res"
  let ?rh = "put_header ''Referrer-Policy'' (JStr (strip_whitespace (referrerPolicy ?cfg)))
         (put_header ''X-Content-Type-Options''
            (JStr (strip_whitespace (xContentTypeOptions ?cfg)))
         (put_header ''X-Frame-Options'' (JStr (strip_whitespace (xFrameOptions ?cfg)))
         (apply_writes (header_if (hsts_enabled (hsts ?cfg))
            ''Strict-Transport-Security'' (hsts_rendering (hsts ?cfg))) res)))"
  have valid: "valid_header_value (xFrameOptions ?cfg)"
    "valid_header_value (xContentTypeOptions ?cfg)"
    "valid_header_value (referrerPolicy ?cfg)"
    using assms(2) by (simp_all add: header_safe_def)
  have express: "securityHeaders opts req res last_handler = Inr ?re"
    unfolding securityHeaders_def by (rule securityHeadersMiddleware_result [OF assms])
  have hono: "securityHeadersHono opts res last_handler = Inr ?rh"
    by (rule securityHeadersHono_result [OF valid])
  have sts: "getHeader ?rh ''Strict-Transport-Security'' = getHeader ?re ''Strict-Transport-Security''"
    by (simp add: planned_hsts header_if_def)
  have xfo: "getHeader ?rh ''X-Frame-Options'' = Some (JStr (strip_whitespace (xFrameOptions ?cfg)))"
    by simp
  have xcto: "getHeader ?rh ''X-Content-Type-Options'' =
      Some (JStr (strip_whitespace (xContentTypeOptions ?cfg)))"
    by simp
  have rp: "getHeader ?rh ''Referrer-Policy'' = Some (JStr (strip_whitespace (referrerPolicy ?cfg)))"
    by simp
  have other: "getHeader ?rh h = getHeader res h"
    if "lower h \<notin> {''strict-transport-security'', ''x-frame-options'',
                        ''x-content-type-options'', ''referrer-policy''}" for h
    using that by (simp add: header_if_def)
  show ?thesis
  proof (intro exI conjI allI impI)
    show "securityHeaders opts req res last_handler = Inr ?re" by (rule express)
    show "securityHeadersHono opts res last_handler = Inr ?rh" by (rule hono)
    show "getHeader ?rh ''Strict-Transport-Security'' = getHeader ?re ''Strict-Transport-Security''"
      by (rule sts)
    show "getHeader ?rh ''X-Frame-Options'' = Some (JStr (strip_whitespace (xFrameOptions ?cfg)))"
      by (rule xfo)
    show "getHeader ?rh ''X-Content-Type-Options'' =
        Some (JStr (strip_whitespace (xContentTypeOptions ?cfg)))"
      by (rule xcto)
    show "getHeader ?rh ''Referrer-Policy'' = Some (JStr (strip_whitespace (referrerPolicy ?cfg)))"
      by (rule rp)
    show "getHeader ?rh ''X-Frame-Options'' = getHeader ?re ''X-Frame-Options''"
      if "xFrameOptions ?cfg \<noteq> [] \<and> strip_whitespace (xFrameOptions ?cfg) = xFrameOptions ?cfg"
      using that by (simp add: xfo planned_plain)
    show "getHeader ?rh ''X-Content-Type-Options'' = getHeader ?re ''X-Content-Type-Options''"
      if "xContentTypeOptions ?cfg \<noteq> []
          \<and> strip_whitespace (xContentTypeOptions ?cfg) = xContentTypeOptions ?cfg"
      using that by (simp add: xcto planned_plain)
    show "getHeader ?rh ''Referrer-Policy'' = getHeader ?re ''Referrer-Policy''"
      if "referrerPolicy ?cfg \<noteq> []
          \<and> strip_whitespace (referrerPolicy ?cfg) = referrerPolicy ?cfg"
      using that by (simp add: rp planned_plain)
    show "getHeader ?rh h = getHeader res h"
      if "lower h \<notin> {''strict-transport-security'', ''x-frame-options'',
                        ''x-content-type-options'', ''referrer-policy''}" for h
      by (rule other [OF that])
  qed
qed

text \<open>
  With no options on a response without headers, both write \<open>X-Frame-Options: DENY\<close> and
  the same \<open>Strict-Transport-Security\<close>, and the adapter writes no \<open>Permissions-Policy\<close>.
  With \<open>{ referrerPolicy: '\tno-referrer ' }\<close> the adapter writes \<open>no-referrer\<close>.
\<close>

theorem securityHeadersHono_partial_agreement_witness:
  "normal_input (securityHeaders_config no_options) empty_response
   \<and> header_safe (securityHeaders_config no_options)
   \<and> xFrameOptions (securityHeaders_config no_options) \<noteq> []
   \<and> strip_whitespace (xFrameOptions (securityHeaders_config no_options))
       = xFrameOptions (securityHeaders_config no_options)
   \<and> header_after (securityHeadersHono no_options empty_response last_handler) ''X-Frame-Options''
       = header_after (securityHeaders no_options empty_request empty_response last_handler)
           ''X-Frame-Options''
   \<and> header_after (securityHeadersHono no_options empty_response last_handler)
         ''X-Frame-Options'' = Some (JStr ''DENY'')
   \<and> xContentTypeOptions (securityHeaders_config no_options) \<noteq> []
   \<and> strip_whitespace (xContentTypeOptions (securityHeaders_config no_options))
       = xContentTypeOptions (securityHeaders_config no_options)
   \<and> header_after (securityHeadersHono no_options empty_response last_handler)
         ''X-Content-Type-Options''
       = header_after (securityHeaders no_options empty_request empty_response last_handler)
           ''X-Content-Type-Options''
   \<and> header_after (securityHeadersHono no_options empty_response last_handler)
         ''X-Content-Type-Options'' = Some (JStr ''nosniff'')
   \<and> referrerPolicy (securityHeaders_config no_options) \<noteq> []
   \<and> strip_whitespace (referrerPolicy (securityHeaders_config no_options))
       = referrerPolicy (securityHeaders_config no_options)
   \<and> header_after (securityHeadersHono no_options empty_response last_handler)
         ''Referrer-Policy''
       = header_after (securityHeaders no_options empty_request empty_response last_handler)
           ''Referrer-Policy''
   \<and> header_after (securityHeadersHono no_options empty_response last_handler)
         ''Referrer-Policy'' = Some (JStr ''strict-origin-when-cross-origin'')
   \<and> header_after (securityHeadersHono no_options empty_response last_handler)
         ''Strict-Transport-Security'' = Some (JStr ''max-age=31536000; includeSubDomains'')
   \<and> header_after (securityHeaders no_options empty_request empty_response last_handler)
         ''Strict-Transport-Security'' = Some (JStr ''max-age=31536000; includeSubDomains'')
   \<and> lower ''Permissions-Policy'' \<notin> {''strict-transport-security'', ''x-frame-options'',
         ''x-content-type-options'', ''referrer-policy''}
   \<and> header_after (securityHeadersHono no_options empty_response last_handler)
         ''Permissions-Policy'' = None
   \<and> normal_input (securityHeaders_config padded_referrerPolicy) empty_response
   \<and> header_safe (securityHeaders_config padded_referrerPolicy)
   \<and> header_after (securityHeadersHono padded_referrerPolicy empty_response last_handler)
         ''Referrer-Policy'' = Some (JStr ''no-referrer'')
   \<and> header_after (securityHeaders padded_referrerPolicy empty_request empty_response
         last_handler) ''Referrer-Policy'' = Some (JStr (CHR 0x09 # ''no-referrer ''))"
proof -
  obtain pe ph where padded:
    "securityHeaders padded_referrerPolicy empty_request empty_response last_handler = Inr pe"
    "securityHeadersHono padded_referrerPolicy empty_response last_handler = Inr ph"
    "getHeader ph ''Referrer-Policy'' =
       Some (JStr (strip_whitespace (referrerPolicy (securityHeaders_config padded_referrerPolicy))))"
    using securityHeadersHono_partial_agreement
      [OF normal_input_examples(7) header_safe_padded(2), of empty_request]
    by blast
  have "pe = apply_writes (planned_writes (securityHeaders_config padded_referrerPolicy)
               empty_response) empty_response"
    using padded(1) securityHeadersMiddleware_result
      [OF normal_input_examples(7) header_safe_padded(2), of empty_request]
    by (simp add: securityHeaders_def)
  then have "getHeader pe ''Referrer-Policy'' = Some (JStr (CHR 0x09 # ''no-referrer ''))"
    by (simp add: planned_plain) (simp add: example_configs)
  moreover have "getHeader ph ''Referrer-Policy'' = Some (JStr ''no-referrer'')"
    using padded(3) by (simp add: example_configs strip_whitespace_def http_whitespace_def)
  ultimately have pad:
    "header_after (securityHeadersHono padded_referrerPolicy empty_response last_handler)
         ''Referrer-Policy'' = Some (JStr ''no-referrer'')"
    "header_after (securityHeaders padded_referrerPolicy empty_request empty_response
         last_handler) ''Referrer-Policy'' = Some (JStr (CHR 0x09 # ''no-referrer ''))"
    using padded(1,2) by (simp_all add: header_after_def)
  have strip: "strip_whitespace (xFrameOptions (securityHeaders_config no_options))
       = xFrameOptions (securityHeaders_config no_options)"
    "strip_whitespace (xContentTypeOptions (securityHeaders_config no_options))
       = xContentTypeOptions (securityHeaders_config no_options)"
    "strip_whitespace (referrerPolicy (securityHeaders_config no_options))
       = referrerPolicy (securityHeaders_config no_options)"
    by (simp_all add: securityHeaders_config_default strip_whitespace_def http_whitespace_def)
  have nonempty: "xFrameOptions (securityHeaders_config no_options) \<noteq> []"
    "xContentTypeOptions (securityHeaders_config no_options) \<noteq> []"
    "referrerPolicy (securityHeaders_config no_options) \<noteq> []"
    by (simp_all add: securityHeaders_config_default)
  obtain re rh where r:
    "securityHeaders no_options empty_request empty_response last_handler = Inr re"
    "securityHeadersHono no_options empty_response last_handler = Inr rh"
    "getHeader rh ''Strict-Transport-Security'' = getHeader re ''Strict-Transport-Security''"
    "getHeader rh ''X-Frame-Options'' =
       Some (JStr (strip_whitespace (xFrameOptions (securityHeaders_config no_options))))"
    "xFrameOptions (securityHeaders_config no_options) \<noteq> []
       \<and> strip_whitespace (xFrameOptions (securityHeaders_config no_options))
           = xFrameOptions (securityHeaders_config no_options) \<longrightarrow>
       getHeader rh ''X-Frame-Options'' = getHeader re ''X-Frame-Options''"
    "\<forall>h. lower h \<notin> {''strict-transport-security'', ''x-frame-options'',
            ''x-content-type-options'', ''referrer-policy''} \<longrightarrow>
       getHeader rh h = getHeader empty_response h"
    "getHeader rh ''X-Content-Type-Options'' =
       Some (JStr (strip_whitespace (xContentTypeOptions (securityHeaders_config no_options))))"
    "xContentTypeOptions (securityHeaders_config no_options) \<noteq> []
       \<and> strip_whitespace (xContentTypeOptions (securityHeaders_config no_options))
           = xContentTypeOptions (securityHeaders_config no_options) \<longrightarrow>
       getHeader rh ''X-Content-Type-Options'' = getHeader re ''X-Content-Type-Options''"
    "getHeader rh ''Referrer-Policy'' =
       Some (JStr (strip_whitespace (referrerPolicy (securityHeaders_config no_options))))"
    "referrerPolicy (securityHeaders_config no_options) \<noteq> []
       \<and> strip_whitespace (referrerPolicy (securityHeaders_config no_options))
           = referrerPolicy (securityHeaders_config no_options) \<longrightarrow>
       getHeader rh ''Referrer-Policy'' = getHeader re ''Referrer-Policy''"
    using securityHeadersHono_partial_agreement
      [OF normal_input_examples(1) header_safe_examples(1), of empty_request]
    by blast
  have name: "lower ''Permissions-Policy'' \<notin> {''strict-transport-security'', ''x-frame-options'',
         ''x-content-type-options'', ''referrer-policy''}"
    by simp
  with r(6) have p: "getHeader rh ''Permissions-Policy'' = None"
    by simp
  have "re = apply_writes (planned_writes (securityHeaders_config no_options) empty_response)
               empty_response"
    using r(1) securityHeadersMiddleware_result
      [OF normal_input_examples(1) header_safe_examples(1), of empty_request]
    by (simp add: securityHeaders_def)
  then have e: "getHeader re ''Strict-Transport-Security'' =
      Some (JStr ''max-age=31536000; includeSubDomains'')"
    by (simp add: planned_hsts securityHeaders_config_default hsts_rendering_def
        number_toString_examples)
  have x: "getHeader rh ''X-Frame-Options'' = Some (JStr ''DENY'')"
    "getHeader rh ''X-Content-Type-Options'' = Some (JStr ''nosniff'')"
    "getHeader rh ''Referrer-Policy'' = Some (JStr ''strict-origin-when-cross-origin'')"
    using r(4,7,9) strip by (simp_all add: securityHeaders_config_default)
  have eq: "getHeader rh ''X-Frame-Options'' = getHeader re ''X-Frame-Options''"
    "getHeader rh ''X-Content-Type-Options'' = getHeader re ''X-Content-Type-Options''"
    "getHeader rh ''Referrer-Policy'' = getHeader re ''Referrer-Policy''"
    using r(5,8,10) strip nonempty by simp_all
  show ?thesis
    using r(1-3) p e x eq strip nonempty name normal_input_examples(1,7) header_safe_examples(1)
      header_safe_padded(2) pad
    by (simp add: header_after_def)
qed

end
